theory Spec2Isabelle
  imports Main "HOL-Library.Word"
begin

unbundle bit_operations_syntax

section \<open>JavaScript values and objects\<close>

text \<open>
  The policy engine works on \<open>Record<string, any>\<close> bags. A value is one of the
  JavaScript values that can occur there; an object is the list of its own entries in
  insertion order (what \<open>Object.entries\<close> enumerates), with distinct keys. A \<open>Date\<close>
  is its epoch time in milliseconds. Numbers are the integers (no NaN, no fractions).
\<close>

datatype jsval =
    JUndefined
  | JNull
  | JBool bool
  | JNum int
  | JStr string
  | JDate int
  | JArr "jsval list"
  | JObj "(string \<times> jsval) list"

type_synonym jsobj = "(string \<times> jsval) list"

datatype js_error = TypeError | DataError | Unmodelled

text \<open>Property read \<open>obj[key]\<close>: \<open>undefined\<close> when the key is absent.\<close>

definition get_prop :: "jsobj \<Rightarrow> string \<Rightarrow> jsval" where
  "get_prop obj key = (case map_of obj key of None \<Rightarrow> JUndefined | Some v \<Rightarrow> v)"

text \<open>Property write \<open>obj[key] = v\<close>: in place when the key exists, appended otherwise.\<close>

fun set_prop :: "string \<Rightarrow> jsval \<Rightarrow> jsobj \<Rightarrow> jsobj" where
  "set_prop k v [] = [(k, v)]"
| "set_prop k v ((k', v') # rest) =
     (if k' = k then (k, v) # rest else (k', v') # set_prop k v rest)"

text \<open>Object spread \<open>{...base, ...ext}\<close>: the entries of \<open>ext\<close> are written over \<open>base\<close>.\<close>

definition spread :: "jsobj \<Rightarrow> jsobj \<Rightarrow> jsobj" where
  "spread base ext = fold (\<lambda>(k, v) obj. set_prop k v obj) ext base"

text \<open>
  Strict equality \<open>===\<close> (and SameValueZero of \<open>Array.prototype.includes\<close>, which agrees
  with it without NaN). Primitives compare by value. Dates, arrays and objects compare
  by reference: a value written in a policy and a value found in a context are two
  different references, so they are never equal.
\<close>

fun strict_eq :: "jsval \<Rightarrow> jsval \<Rightarrow> bool" where
  "strict_eq JUndefined JUndefined = True"
| "strict_eq JNull JNull = True"
| "strict_eq (JBool a) (JBool b) = (a = b)"
| "strict_eq (JNum a) (JNum b) = (a = b)"
| "strict_eq (JStr a) (JStr b) = (a = b)"
| "strict_eq _ _ = False"

definition js_includes :: "jsval list \<Rightarrow> jsval \<Rightarrow> bool" where
  "js_includes xs v = list_ex (\<lambda>x. strict_eq x v) xs"

fun truthy :: "jsval \<Rightarrow> bool" where
  "truthy JUndefined = False"
| "truthy JNull = False"
| "truthy (JBool b) = b"
| "truthy (JNum n) = (n \<noteq> 0)"
| "truthy (JStr s) = (s \<noteq> [])"
| "truthy _ = True"

fun typeof_object :: "jsval \<Rightarrow> bool" where
  "typeof_object JNull = True"
| "typeof_object (JDate _) = True"
| "typeof_object (JArr _) = True"
| "typeof_object (JObj _) = True"
| "typeof_object _ = False"

text \<open>\<open>s.split(c)\<close> for a one-character separator: never empty, \<open>"".split(c) = [""]\<close>.\<close>

fun split_on :: "char \<Rightarrow> string \<Rightarrow> string list" where
  "split_on c [] = [[]]"
| "split_on c (x # xs) =
     (if x = c then [] # split_on c xs
      else (case split_on c xs of
              [] \<Rightarrow> [[x]]
            | w # ws \<Rightarrow> (x # w) # ws))"

text \<open>
  Local time of a \<open>Date\<close>: \<open>tz\<close> is the offset of the local zone from UTC in
  milliseconds (a fixed offset). 1 January 1970 was a Thursday (day 4).
\<close>

definition getHours :: "int \<Rightarrow> int \<Rightarrow> int" where
  "getHours tz ms = ((ms + tz) div 3600000) mod 24"

definition getDay :: "int \<Rightarrow> int \<Rightarrow> int" where
  "getDay tz ms = (4 + (ms + tz) div 86400000) mod 7"

section \<open>ABAC policy engine (lib/types/security.ts)\<close>

datatype effect = Allow | Deny

record abac_policy =
  policy_id :: string
  policy_name :: string
  policy_description :: string
  policy_subject :: jsobj
  policy_resource :: jsobj
  policy_action :: string
  policy_environment :: jsobj
  policy_effect :: effect
  policy_priority :: int

record user =
  user_id :: string
  user_email :: string
  user_name :: string
  user_role :: string
  user_permissions :: "jsval list"
  user_mfaEnabled :: bool
  user_lastLogin :: int
  user_failedAttempts :: int
  user_isLocked :: bool
  user_createdAt :: int
  user_updatedAt :: int

record policy_context =
  ctx_user :: user
  ctx_resource :: jsobj
  ctx_action :: string
  ctx_environment :: jsobj

record policy_evaluation_result =
  decision :: effect
  matchedPolicies :: "abac_policy list"
  reason :: string

definition defaultPolicies :: "abac_policy list" where
  "defaultPolicies =
    [ \<lparr> policy_id = ''admin-full-access'', policy_name = ''Admin Full Access'',
        policy_description = ''Administrators have full access to all resources'',
        policy_subject = [(''role'', JStr ''admin'')],
        policy_resource = [(''type'', JStr ''*'')],
        policy_action = ''*'', policy_environment = [],
        policy_effect = Allow, policy_priority = 100 \<rparr>,
      \<lparr> policy_id = ''user-own-data'', policy_name = ''User Own Data Access'',
        policy_description = ''Users can read and write their own data'',
        policy_subject = [(''role'', JStr ''user'')],
        policy_resource = [(''type'', JStr ''user-data'')],
        policy_action = ''read|write'', policy_environment = [],
        policy_effect = Allow, policy_priority = 50 \<rparr>,
      \<lparr> policy_id = ''mfa-required-sensitive'',
        policy_name = ''MFA Required for Sensitive Operations'',
        policy_description = ''MFA verification required for sensitive operations'',
        policy_subject = [],
        policy_resource = [(''classification'', JStr ''confidential|secret'')],
        policy_action = ''write|delete'',
        policy_environment = [(''mfaVerified'', JBool False)],
        policy_effect = Deny, policy_priority = 90 \<rparr>,
      \<lparr> policy_id = ''business-hours-only'', policy_name = ''Business Hours Access Only'',
        policy_description = ''Sensitive operations only during business hours'',
        policy_subject = [(''role'', JStr ''user'')],
        policy_resource = [(''classification'', JStr ''confidential'')],
        policy_action = ''write|delete'', policy_environment = [],
        policy_effect = Deny, policy_priority = 70 \<rparr>,
      \<lparr> policy_id = ''block-suspicious-ip'', policy_name = ''Block Suspicious IP Addresses'',
        policy_description = ''Block access from known suspicious IP ranges'',
        policy_subject = [], policy_resource = [(''type'', JStr ''*'')],
        policy_action = ''*'', policy_environment = [],
        policy_effect = Deny, policy_priority = 95 \<rparr> ]"

text \<open>
  The constructor sorts a copy of the policies with the comparator
  \<open>b.priority - a.priority\<close>; \<open>Array.prototype.sort\<close> is stable, as \<open>sort_key\<close> is.
\<close>

definition ABACPolicyEngine :: "abac_policy list \<Rightarrow> abac_policy list" where
  "ABACPolicyEngine policies = sort_key (\<lambda>p. - policy_priority p) policies"

definition addPolicy :: "abac_policy \<Rightarrow> abac_policy list \<Rightarrow> abac_policy list" where
  "addPolicy policy policies = sort_key (\<lambda>p. - policy_priority p) (policies @ [policy])"

definition removePolicy :: "string \<Rightarrow> abac_policy list \<Rightarrow> abac_policy list" where
  "removePolicy policyId policies = filter (\<lambda>p. policy_id p \<noteq> policyId) policies"

definition extractDepartmentFromEmail :: "string \<Rightarrow> string" where
  "extractDepartmentFromEmail email =
     (let domain = (case split_on CHR ''@'' email of
                      _ # d # _ \<Rightarrow> JStr d
                    | _ \<Rightarrow> JUndefined)
      in if strict_eq domain (JStr ''security.com'') then ''security''
         else if strict_eq domain (JStr ''admin.com'') then ''admin''
         else ''general'')"

definition getUserAttributes :: "user \<Rightarrow> jsobj" where
  "getUserAttributes u =
     [ (''id'', JStr (user_id u)),
       (''email'', JStr (user_email u)),
       (''role'', JStr (user_role u)),
       (''permissions'', JArr (user_permissions u)),
       (''mfaEnabled'', JBool (user_mfaEnabled u)),
       (''department'', JStr (extractDepartmentFromEmail (user_email u))) ]"

text \<open>One iteration of the loop of \<open>matchesAttributes\<close>: does this entry reject?\<close>

fun matchesAttributes :: "jsobj \<Rightarrow> jsobj \<Rightarrow> bool" where
  "matchesAttributes [] contextAttrs = True"
| "matchesAttributes ((key, val) # rest) contextAttrs =
     (if val = JStr ''*'' then matchesAttributes rest contextAttrs
      else
        (let contextValue = get_prop contextAttrs key in
         case val of
           JStr s \<Rightarrow>
             (if CHR ''|'' \<in> set s then
                (if \<not> js_includes (map JStr (split_on CHR ''|'' s)) contextValue then False
                 else matchesAttributes rest contextAttrs)
              else if \<not> strict_eq val contextValue then False
              else matchesAttributes rest contextAttrs)
         | JArr xs \<Rightarrow>
             (if \<not> js_includes xs contextValue then False
              else matchesAttributes rest contextAttrs)
         | _ \<Rightarrow>
             (if \<not> strict_eq val contextValue then False
              else matchesAttributes rest contextAttrs)))"

definition matchesAction :: "string \<Rightarrow> string \<Rightarrow> bool" where
  "matchesAction policyAction contextAction =
     (if policyAction = ''*'' then True
      else if CHR ''|'' \<in> set policyAction then
        contextAction \<in> set (split_on CHR ''|'' policyAction)
      else policyAction = contextAction)"

text \<open>
  \<open>matchesTimeCondition\<close> calls \<open>currentTime.getHours()\<close> first: a context whose
  \<open>time\<close> is not a \<open>Date\<close> raises a TypeError, and so does reading
  \<open>businessHours\<close> of \<open>null\<close>.
\<close>

definition matchesTimeCondition :: "int \<Rightarrow> jsval \<Rightarrow> jsval \<Rightarrow> js_error + bool" where
  "matchesTimeCondition tz timeCondition currentTime =
     (case currentTime of
        JDate ms \<Rightarrow>
          (let hour = getHours tz ms; day = getDay tz ms in
           case timeCondition of
             JNull \<Rightarrow> Inl TypeError
           | JUndefined \<Rightarrow> Inl TypeError
           | JObj cond \<Rightarrow>
               (if truthy (get_prop cond ''businessHours'')
                then Inr (day \<ge> 1 \<and> day \<le> 5 \<and> hour \<ge> 9 \<and> hour < 17)
                else Inr True)
           | _ \<Rightarrow> Inr True)
      | _ \<Rightarrow> Inl TypeError)"

text \<open>
  The regular expressions built by \<open>matchesIPPattern\<close>: every \<open>*\<close> of the pattern
  becomes \<open>.*\<close>, a \<open>.\<close> of the pattern stays the regex dot (any character but a line
  terminator), the other characters stand for themselves. A pattern with another regex
  metacharacter is outside this model (\<open>Unmodelled\<close>). \<open>RegExp.test\<close> searches: the
  expression may match at any position and need not reach the end.
\<close>

datatype re_item = ReStar | ReDot | ReLit char

definition re_meta :: "char \<Rightarrow> bool" where
  "re_meta c = (c = CHR 0x5C \<or> c \<in> set ''^$+?()[]{}|'')"

definition line_terminator :: "char \<Rightarrow> bool" where
  "line_terminator c = (c = CHR 0x0A \<or> c = CHR 0x0D)"

definition compile_glob :: "string \<Rightarrow> re_item list" where
  "compile_glob pat =
     map (\<lambda>c. if c = CHR ''*'' then ReStar else if c = CHR ''.'' then ReDot else ReLit c) pat"

fun match_here :: "re_item list \<Rightarrow> string \<Rightarrow> bool" where
  "match_here [] s = True"
| "match_here (ReStar # ps) [] = match_here ps []"
| "match_here (ReStar # ps) (c # cs) =
     (match_here ps (c # cs) \<or> (\<not> line_terminator c \<and> match_here (ReStar # ps) cs))"
| "match_here (ReDot # ps) [] = False"
| "match_here (ReDot # ps) (c # cs) = (\<not> line_terminator c \<and> match_here ps cs)"
| "match_here (ReLit a # ps) [] = False"
| "match_here (ReLit a # ps) (c # cs) = (c = a \<and> match_here ps cs)"

fun regex_test :: "re_item list \<Rightarrow> string \<Rightarrow> bool" where
  "regex_test ps [] = match_here ps []"
| "regex_test ps (c # cs) = (match_here ps (c # cs) \<or> regex_test ps cs)"

text \<open>
  \<open>matchesIPPattern\<close>: a falsy context IP never matches. A truthy IP that is not a
  string would be converted to one by \<open>test\<close>; that conversion is not modelled.
\<close>

definition matchesIPPattern :: "string \<Rightarrow> jsval \<Rightarrow> js_error + bool" where
  "matchesIPPattern pat ip =
     (if \<not> truthy ip then Inr False
      else if CHR ''*'' \<in> set pat then
        (if list_ex re_meta pat then Inl Unmodelled
         else (case ip of
                 JStr s \<Rightarrow> Inr (regex_test (compile_glob pat) s)
               | _ \<Rightarrow> Inl Unmodelled))
      else Inr (strict_eq (JStr pat) ip))"

fun matchesEnvironment :: "int \<Rightarrow> jsobj \<Rightarrow> jsobj \<Rightarrow> js_error + bool" where
  "matchesEnvironment tz [] contextEnv = Inr True"
| "matchesEnvironment tz ((key, val) # rest) contextEnv =
     (let contextValue = get_prop contextEnv key in
      if key = ''time'' \<and> typeof_object val then
        (case matchesTimeCondition tz val (get_prop contextEnv ''time'') of
           Inl e \<Rightarrow> Inl e
         | Inr b \<Rightarrow> if \<not> b then Inr False else matchesEnvironment tz rest contextEnv)
      else
        (case val of
           JStr s \<Rightarrow>
             (if key = ''ipAddress'' then
                (case matchesIPPattern s contextValue of
                   Inl e \<Rightarrow> Inl e
                 | Inr b \<Rightarrow> if \<not> b then Inr False else matchesEnvironment tz rest contextEnv)
              else if \<not> strict_eq val contextValue then Inr False
              else matchesEnvironment tz rest contextEnv)
         | _ \<Rightarrow>
             (if \<not> strict_eq val contextValue then Inr False
              else matchesEnvironment tz rest contextEnv)))"

text \<open>\<open>matchesPolicy\<close>: the four matchers joined by the short-circuit \<open>&&\<close>.\<close>

definition matchesPolicy :: "int \<Rightarrow> abac_policy \<Rightarrow> policy_context \<Rightarrow> js_error + bool" where
  "matchesPolicy tz policy context =
     (if matchesAttributes (policy_subject policy) (getUserAttributes (ctx_user context))
         \<and> matchesAttributes (policy_resource policy) (ctx_resource context)
         \<and> matchesAction (policy_action policy) (ctx_action context)
      then matchesEnvironment tz (policy_environment policy) (ctx_environment context)
      else Inr False)"

text \<open>
  The loop of \<open>evaluate\<close> over the remaining policies; the accumulator holds
  \<open>matchedPolicies\<close>, \<open>finalDecision\<close> and \<open>reason\<close>. \<open>break\<close> returns at once.
\<close>

fun evaluate_loop ::
  "int \<Rightarrow> abac_policy list \<Rightarrow> policy_context \<Rightarrow> policy_evaluation_result
     \<Rightarrow> js_error + policy_evaluation_result" where
  "evaluate_loop tz [] context acc = Inr acc"
| "evaluate_loop tz (policy # rest) context acc =
     (case matchesPolicy tz policy context of
        Inl e \<Rightarrow> Inl e
      | Inr False \<Rightarrow> evaluate_loop tz rest context acc
      | Inr True \<Rightarrow>
          (let acc1 = acc\<lparr>matchedPolicies := matchedPolicies acc @ [policy]\<rparr> in
           if policy_effect policy = Deny then
             Inr (acc1\<lparr>decision := Deny,
                       reason := ''Denied by policy: '' @ policy_name policy\<rparr>)
           else if policy_effect policy = Allow \<and> decision acc1 \<noteq> Deny then
             evaluate_loop tz rest context
               (acc1\<lparr>decision := Allow,
                      reason := ''Allowed by policy: '' @ policy_name policy\<rparr>)
           else evaluate_loop tz rest context acc1))"

definition evaluate ::
  "int \<Rightarrow> abac_policy list \<Rightarrow> policy_context \<Rightarrow> js_error + policy_evaluation_result" where
  "evaluate tz policies context =
     evaluate_loop tz policies context
       \<lparr>decision = Deny, matchedPolicies = [], reason = ''No matching policies found''\<rparr>"

text \<open>
  \<open>checkPermission\<close> builds the context (\<open>now\<close> is the clock read by \<open>new Date()\<close>)
  and evaluates it on the global engine, whose current policy list is \<open>engine\<close>.
\<close>

definition checkPermission_context ::
  "int \<Rightarrow> user \<Rightarrow> jsobj \<Rightarrow> string \<Rightarrow> jsobj \<Rightarrow> policy_context" where
  "checkPermission_context now u res act env =
     \<lparr> ctx_user = u, ctx_resource = res, ctx_action = act,
       ctx_environment =
         spread [(''time'', JDate now), (''mfaVerified'', JBool (user_mfaEnabled u))] env \<rparr>"

definition checkPermission ::
  "int \<Rightarrow> abac_policy list \<Rightarrow> int \<Rightarrow> user \<Rightarrow> jsobj \<Rightarrow> string \<Rightarrow> jsobj
     \<Rightarrow> js_error + policy_evaluation_result" where
  "checkPermission tz engine now u res act env =
     evaluate tz engine (checkPermission_context now u res act env)"

section \<open>Request gate (lib/middleware/security-middleware.ts)\<close>

record security_middleware_config =
  enableLogging :: bool
  enableRateLimit :: bool
  enableIPBlocking :: bool
  rateLimitRequests :: int
  rateLimitWindow :: int
  cfg_blockedIPs :: "string list"
  trustedIPs :: "string list"

definition defaultConfig :: security_middleware_config where
  "defaultConfig =
     \<lparr> enableLogging = True, enableRateLimit = True, enableIPBlocking = True,
       rateLimitRequests = 100, rateLimitWindow = 15,
       cfg_blockedIPs = [], trustedIPs = [''127.0.0.1'', ''::1''] \<rparr>"

record rate_entry =
  count :: int
  resetTime :: int

text \<open>
  The module state: \<open>rateLimitStore\<close> and the set \<open>blockedIPs\<close>. A key of the store is
  the string \<open>ip:n\<close> with \<open>n\<close> the window index; the decimal \<open>n\<close> holds no colon, so the
  string determines the pair \<open>(ip, n)\<close>, which is the key here.
\<close>

record middleware_state =
  rateLimitStore :: "string \<times> int \<rightharpoonup> rate_entry"
  blockedIPs :: "string set"

definition initial_middleware_state :: middleware_state where
  "initial_middleware_state = \<lparr> rateLimitStore = Map.empty, blockedIPs = {} \<rparr>"

definition blockIP :: "string \<Rightarrow> middleware_state \<Rightarrow> middleware_state" where
  "blockIP ip st = st\<lparr>blockedIPs := insert ip (blockedIPs st)\<rparr>"

definition unblockIP :: "string \<Rightarrow> middleware_state \<Rightarrow> middleware_state" where
  "unblockIP ip st = st\<lparr>blockedIPs := blockedIPs st - {ip}\<rparr>"

text \<open>
  The three responses of \<open>securityMiddleware\<close>: status 403 (\<open>Blocked\<close>), status 429
  with its \<open>Retry-After\<close> header in seconds (\<open>RateLimited\<close>), and \<open>NextResponse.next()\<close>
  (\<open>Admitted\<close>).
\<close>

datatype admission = Blocked | RateLimited int | Admitted

definition windowMs :: "security_middleware_config \<Rightarrow> int" where
  "windowMs cfg = rateLimitWindow cfg * 60 * 1000"

text \<open>\<open>Math.ceil(x / 1000)\<close> for an integer \<open>x\<close>.\<close>

definition ceil_seconds :: "int \<Rightarrow> int" where
  "ceil_seconds x = - ((- x) div 1000)"

text \<open>
  One request from \<open>ip\<close>. The function reads the clock up to three times: \<open>tKey\<close> for
  the window index, \<open>tReset\<close> for the reset time of a new bucket, and, after the event
  has been logged, \<open>tRetry\<close> for the \<open>Retry-After\<close> header. The calls of
  \<open>securityLogger.logEvent\<close> and \<open>detectSuspiciousActivity\<close> return nothing, catch their
  own failures and touch neither the store nor the blocklist; they are left out. For a
  window of 0 minutes the division by zero puts every request into one bucket, in
  JavaScript (\<open>Infinity\<close>) and here (\<open>x div 0 = 0\<close>).
\<close>

definition securityMiddleware ::
  "security_middleware_config \<Rightarrow> string \<Rightarrow> int \<Rightarrow> int \<Rightarrow> int \<Rightarrow> middleware_state
     \<Rightarrow> admission \<times> middleware_state" where
  "securityMiddleware cfg ip tKey tReset tRetry st =
     (if enableIPBlocking cfg \<and> (ip \<in> blockedIPs st \<or> ip \<in> set (cfg_blockedIPs cfg)) then
        (Blocked, st)
      else if enableRateLimit cfg \<and> ip \<notin> set (trustedIPs cfg) then
        (let rateLimitKey = (ip, tKey div windowMs cfg);
             current = (case rateLimitStore st rateLimitKey of
                          None \<Rightarrow> \<lparr> count = 0, resetTime = tReset + windowMs cfg \<rparr>
                        | Some entry \<Rightarrow> entry);
             current = current\<lparr>count := count current + 1\<rparr>;
             st = st\<lparr>rateLimitStore := (rateLimitStore st)(rateLimitKey \<mapsto> current)\<rparr>
         in if count current > rateLimitRequests cfg then
              (RateLimited (ceil_seconds (resetTime current - tRetry)), st)
            else (Admitted, st))
      else (Admitted, st))"



section \<open>Security events and the pattern detector (security-logger.ts)\<close>

datatype severity = Critical | High | Medium | Low

fun severity_name :: "severity \<Rightarrow> string" where
  "severity_name Critical = ''critical''"
| "severity_name High = ''high''"
| "severity_name Medium = ''medium''"
| "severity_name Low = ''low''"

text \<open>A row of the table \<open>security_events\<close> (without its random id).\<close>

record security_event =
  event_type :: string
  event_severity :: severity
  event_user_id :: "string option"
  event_ip_address :: "string option"
  event_user_agent :: "string option"
  event_resource :: "string option"
  event_action :: "string option"
  event_details :: jsobj
  event_timestamp :: int

text \<open>The argument of \<open>logEvent\<close> and of \<open>SecurityEventModel.create\<close>.\<close>

record event_data =
  data_event_type :: string
  data_severity :: severity
  data_user_id :: "string option"
  data_ip_address :: "string option"
  data_user_agent :: "string option"
  data_resource :: "string option"
  data_action :: "string option"
  data_details :: "jsobj option"

datatype alert_type =
  brute_force | suspicious_pattern | privilege_escalation | data_breach | system_compromise

record security_alert =
  alert_type :: alert_type
  alert_severity :: severity
  alert_title :: string
  alert_description :: string
  affectedUser :: "string option"
  sourceIP :: "string option"
  alert_timestamp :: int
  isActive :: bool
  alert_actions :: "string list"

record security_pattern =
  pattern :: string
  pattern_description :: string
  threshold :: int
  timeWindow :: int
  pattern_severity :: severity
  pattern_actions :: "string list"

definition patterns :: "security_pattern list" where
  "patterns =
    [ \<lparr> pattern = ''failed_login_burst'',
        pattern_description = ''Multiple failed login attempts from same IP'',
        threshold = 5, timeWindow = 10, pattern_severity = High,
        pattern_actions = [''block_ip'', ''notify_admin'', ''increase_monitoring''] \<rparr>,
      \<lparr> pattern = ''privilege_escalation'',
        pattern_description = ''Attempts to access restricted resources'',
        threshold = 3, timeWindow = 5, pattern_severity = Critical,
        pattern_actions = [''block_user'', ''notify_admin'', ''audit_permissions''] \<rparr>,
      \<lparr> pattern = ''suspicious_user_agent'',
        pattern_description = ''Automated tools or suspicious user agents detected'',
        threshold = 10, timeWindow = 30, pattern_severity = Medium,
        pattern_actions = [''increase_monitoring'', ''require_captcha''] \<rparr>,
      \<lparr> pattern = ''rapid_requests'',
        pattern_description = ''Unusually high request rate from single source'',
        threshold = 100, timeWindow = 5, pattern_severity = High,
        pattern_actions = [''rate_limit'', ''block_ip'', ''notify_admin''] \<rparr>,
      \<lparr> pattern = ''off_hours_access'',
        pattern_description = ''Access attempts outside business hours'',
        threshold = 1, timeWindow = 60, pattern_severity = Medium,
        pattern_actions = [''require_mfa'', ''notify_admin''] \<rparr> ]"

text \<open>
  What the logger can change or show: the event table, the state of the request gate
  (which lives in the same process), the alerts it raises (\<open>console.warn\<close>) and the
  \<open>[ACTION]\<close> lines it prints.
\<close>

record world =
  db_events :: "security_event list"
  gate :: middleware_state
  raised_alerts :: "security_alert list"
  action_log :: "string list"

text \<open>
  The surroundings of a call: the clock, the local time zone, the platform's parser of
  date strings (\<open>None\<close> for a string that is no date), and the address and user agent
  that the events route sees for the HTTP request of \<open>fetch\<close>.
\<close>

record logger_env =
  env_now :: int
  env_tz :: int
  env_parse_date :: "string \<Rightarrow> int option"
  env_client_ip :: "string option"
  env_client_user_agent :: "string option"

subsection \<open>The events API (app/api/security/events/route.ts, models/security-event.ts)\<close>

definition nullable :: "string option \<Rightarrow> jsval" where
  "nullable x = (case x of None \<Rightarrow> JNull | Some s \<Rightarrow> JStr s)"

text \<open>
  The JSON form of a row. Its timestamp is kept as a \<open>Date\<close> value, which stands for
  the ISO string of that instant.
\<close>

definition row_json :: "security_event \<Rightarrow> jsval" where
  "row_json e =
     JObj [ (''event_type'', JStr (event_type e)),
            (''severity'', JStr (severity_name (event_severity e))),
            (''user_id'', nullable (event_user_id e)),
            (''ip_address'', nullable (event_ip_address e)),
            (''user_agent'', nullable (event_user_agent e)),
            (''resource'', nullable (event_resource e)),
            (''action'', nullable (event_action e)),
            (''details'', JObj (event_details e)),
            (''timestamp'', JDate (event_timestamp e)) ]"

text \<open>\<open>x || null\<close> and \<open>x || d\<close> on an optional string: the empty string is falsy.\<close>

definition or_null :: "string option \<Rightarrow> string option" where
  "or_null x = (case x of Some s \<Rightarrow> if s = [] then None else Some s | None \<Rightarrow> None)"

definition or_default :: "string option \<Rightarrow> string \<Rightarrow> string" where
  "or_default x d = (case or_null x of Some s \<Rightarrow> s | None \<Rightarrow> d)"

text \<open>
  \<open>SecurityEventModel.create\<close>: the table stamps the row with the current time. The
  database is taken to accept every row.
\<close>

definition SecurityEventModel_create :: "int \<Rightarrow> event_data \<Rightarrow> security_event" where
  "SecurityEventModel_create now d =
     \<lparr> event_type = data_event_type d,
       event_severity = data_severity d,
       event_user_id = or_null (data_user_id d),
       event_ip_address = or_null (data_ip_address d),
       event_user_agent = or_null (data_user_agent d),
       event_resource = or_null (data_resource d),
       event_action = or_null (data_action d),
       event_details = (case data_details d of None \<Rightarrow> [] | Some obj \<Rightarrow> obj),
       event_timestamp = now \<rparr>"

text \<open>\<open>ORDER BY timestamp DESC LIMIT n\<close>; rows of equal time keep their table order.\<close>

definition getRecentEvents :: "nat \<Rightarrow> security_event list \<Rightarrow> security_event list" where
  "getRecentEvents limit rows = take limit (sort_key (\<lambda>e. - event_timestamp e) rows)"

definition getEventsByType :: "string \<Rightarrow> nat \<Rightarrow> security_event list \<Rightarrow> security_event list" where
  "getEventsByType eventType limit rows =
     take limit (sort_key (\<lambda>e. - event_timestamp e) (filter (\<lambda>e. event_type e = eventType) rows))"

record http_response =
  resp_ok :: bool
  resp_json :: jsval

text \<open>\<open>GET /api/security/events\<close>: the body is the object \<open>{ events }\<close>.\<close>

definition api_get_events :: "string option \<Rightarrow> nat \<Rightarrow> world \<Rightarrow> http_response" where
  "api_get_events type limit w =
     (let events = (case type of
                      Some t \<Rightarrow> getEventsByType t limit (db_events w)
                    | None \<Rightarrow> getRecentEvents limit (db_events w))
      in \<lparr> resp_ok = True, resp_json = JObj [(''events'', JArr (map row_json events))] \<rparr>)"

text \<open>
  \<open>JSON.stringify\<close> leaves out the properties whose value is \<open>undefined\<close>; the
  details of an event are flat objects.
\<close>

definition json_stringify :: "jsobj \<Rightarrow> jsobj" where
  "json_stringify obj = filter (\<lambda>(k, v). v \<noteq> JUndefined) obj"

text \<open>
  \<open>POST /api/security/events\<close> with the event data as JSON body: a missing address or
  user agent is filled in from the HTTP request, the row is created, and the body of the
  response is the object \<open>{ event }\<close>.
\<close>

definition api_post_event :: "logger_env \<Rightarrow> event_data \<Rightarrow> world \<Rightarrow> http_response \<times> world" where
  "api_post_event env d w =
     (let ip = or_default (env_client_ip env) ''unknown'';
          userAgent = or_default (env_client_user_agent env) ''unknown'';
          event = SecurityEventModel_create (env_now env)
                    (d\<lparr> data_ip_address := Some (or_default (data_ip_address d) ip),
                        data_user_agent := Some (or_default (data_user_agent d) userAgent),
                        data_details := map_option json_stringify (data_details d) \<rparr>)
      in (\<lparr> resp_ok = True, resp_json = JObj [(''event'', row_json event)] \<rparr>,
          w\<lparr>db_events := db_events w @ [event]\<rparr>))"

subsection \<open>checkPattern\<close>

text \<open>Reading a property of a value of type \<open>any\<close>.\<close>

definition js_field :: "jsval \<Rightarrow> string \<Rightarrow> js_error + jsval" where
  "js_field v key =
     (case v of
        JObj obj \<Rightarrow> Inr (get_prop obj key)
      | JUndefined \<Rightarrow> Inl TypeError
      | JNull \<Rightarrow> Inl TypeError
      | _ \<Rightarrow> Inr JUndefined)"

text \<open>
  \<open>new Date(v)\<close> as epoch milliseconds, \<open>None\<close> for an invalid date. A string goes
  through the platform's parser \<open>parse\<close>.
\<close>

definition new_Date :: "(string \<Rightarrow> int option) \<Rightarrow> jsval \<Rightarrow> int option" where
  "new_Date parse v =
     (case v of
        JDate ms \<Rightarrow> Some ms
      | JNum n \<Rightarrow> Some n
      | JNull \<Rightarrow> Some 0
      | JBool b \<Rightarrow> Some (if b then 1 else 0)
      | JStr s \<Rightarrow> parse s
      | _ \<Rightarrow> None)"

text \<open>\<open>new Date(v) > timeWindow\<close>: false for an invalid date.\<close>

definition date_after :: "(string \<Rightarrow> int option) \<Rightarrow> jsval \<Rightarrow> int \<Rightarrow> bool" where
  "date_after parse v since =
     (case new_Date parse v of None \<Rightarrow> False | Some ms \<Rightarrow> ms > since)"

text \<open>\<open>xs.filter(p)\<close>: a TypeError when \<open>xs\<close> is not an array, or when \<open>p\<close> raises.\<close>

fun filter_loop :: "(jsval \<Rightarrow> js_error + bool) \<Rightarrow> jsval list \<Rightarrow> js_error + jsval list" where
  "filter_loop p [] = Inr []"
| "filter_loop p (x # xs) =
     (case p x of
        Inl e \<Rightarrow> Inl e
      | Inr b \<Rightarrow>
          (case filter_loop p xs of
             Inl e \<Rightarrow> Inl e
           | Inr ys \<Rightarrow> Inr (if b then x # ys else ys)))"

definition js_filter :: "(jsval \<Rightarrow> js_error + bool) \<Rightarrow> jsval \<Rightarrow> js_error + jsval list" where
  "js_filter p v = (case v of JArr xs \<Rightarrow> filter_loop p xs | _ \<Rightarrow> Inl TypeError)"

definition toLowerCase :: "string \<Rightarrow> string" where
  "toLowerCase s =
     map (\<lambda>c. let n = (of_char c :: nat) in if 65 \<le> n \<and> n \<le> 90 then char_of (n + 32) else c) s"

fun starts_with :: "string \<Rightarrow> string \<Rightarrow> bool" where
  "starts_with s [] = True"
| "starts_with [] (c # cs) = False"
| "starts_with (x # xs) (c # cs) = (x = c \<and> starts_with xs cs)"

fun str_includes :: "string \<Rightarrow> string \<Rightarrow> bool" where
  "str_includes [] sub = (sub = [])"
| "str_includes (x # xs) sub = (starts_with (x # xs) sub \<or> str_includes xs sub)"

text \<open>
  The filter of the three patterns that count the events of one address:
  \<open>e.ip_address === event.ip_address && new Date(e.timestamp) > timeWindow\<close>.
\<close>

definition same_ip_recent ::
  "(string \<Rightarrow> int option) \<Rightarrow> jsval \<Rightarrow> int \<Rightarrow> jsval \<Rightarrow> js_error + bool" where
  "same_ip_recent parse ip since e =
     (case js_field e ''ip_address'' of
        Inl err \<Rightarrow> Inl err
      | Inr eip \<Rightarrow>
          if strict_eq eip ip then
            (case js_field e ''timestamp'' of
               Inl err \<Rightarrow> Inl err
             | Inr ts \<Rightarrow> Inr (date_after parse ts since))
          else Inr False)"

text \<open>
  The filter of \<open>privilege_escalation\<close>: \<open>e.user_id === event.user_id &&
  e.event_type === "access_denied" && new Date(e.timestamp) > timeWindow\<close>.
\<close>

definition same_user_denied_recent ::
  "(string \<Rightarrow> int option) \<Rightarrow> jsval \<Rightarrow> int \<Rightarrow> jsval \<Rightarrow> js_error + bool" where
  "same_user_denied_recent parse uid since e =
     (case js_field e ''user_id'' of
        Inl err \<Rightarrow> Inl err
      | Inr euid \<Rightarrow>
          if strict_eq euid uid then
            (case js_field e ''event_type'' of
               Inl err \<Rightarrow> Inl err
             | Inr et \<Rightarrow>
                 if strict_eq et (JStr ''access_denied'') then
                   (case js_field e ''timestamp'' of
                      Inl err \<Rightarrow> Inl err
                    | Inr ts \<Rightarrow> Inr (date_after parse ts since))
                 else Inr False)
          else Inr False)"

text \<open>
  Fetch the recent events, filter them and compare their number with the threshold:
  the common tail of the four counting patterns.
\<close>

definition count_reaches ::
  "http_response \<Rightarrow> (jsval \<Rightarrow> js_error + bool) \<Rightarrow> int \<Rightarrow> js_error + bool" where
  "count_reaches response p thr =
     (if \<not> resp_ok response then Inr False
      else (case js_filter p (resp_json response) of
              Inl err \<Rightarrow> Inl err
            | Inr matching \<Rightarrow> Inr (int (length matching) \<ge> thr)))"

definition suspiciousAgents :: "string list" where
  "suspiciousAgents = [''curl'', ''wget'', ''python'', ''bot'', ''crawler'', ''scanner'']"

text \<open>The body of the \<open>try\<close> block of \<open>checkPattern\<close>; \<open>Inl\<close> is an exception thrown in it.\<close>

definition checkPattern_try ::
  "logger_env \<Rightarrow> security_pattern \<Rightarrow> jsval \<Rightarrow> world \<Rightarrow> js_error + bool" where
  "checkPattern_try env pat event w =
     (let since = env_now env - timeWindow pat * 60 * 1000 in
      if pattern pat = ''failed_login_burst'' then
        (case js_field event ''event_type'' of
           Inl err \<Rightarrow> Inl err
         | Inr et \<Rightarrow>
             if strict_eq et (JStr ''failed_login'') then
               (case js_field event ''ip_address'' of
                  Inl err \<Rightarrow> Inl err
                | Inr ip \<Rightarrow>
                    if truthy ip then
                      count_reaches (api_get_events (Some ''failed_login'') 100 w)
                        (same_ip_recent (env_parse_date env) ip since) (threshold pat)
                    else Inr False)
             else Inr False)
      else if pattern pat = ''privilege_escalation'' then
        (case js_field event ''event_type'' of
           Inl err \<Rightarrow> Inl err
         | Inr et \<Rightarrow>
             if strict_eq et (JStr ''access_denied'') then
               (case js_field event ''details'' of
                  Inl err \<Rightarrow> Inl err
                | Inr details \<Rightarrow>
                    (case (case details of
                             JUndefined \<Rightarrow> Inr JUndefined
                           | JNull \<Rightarrow> Inr JUndefined
                           | _ \<Rightarrow> js_field details ''reason'') of
                       Inl err \<Rightarrow> Inl err
                     | Inr rsn \<Rightarrow>
                         if strict_eq rsn (JStr ''insufficient_permissions'') then
                           (case js_field event ''user_id'' of
                              Inl err \<Rightarrow> Inl err
                            | Inr uid \<Rightarrow>
                                count_reaches (api_get_events None 50 w)
                                  (same_user_denied_recent (env_parse_date env) uid since)
                                  (threshold pat))
                         else Inr False))
             else Inr False)
      else if pattern pat = ''suspicious_user_agent'' then
        (case js_field event ''user_agent'' of
           Inl err \<Rightarrow> Inl err
         | Inr ua \<Rightarrow>
             if truthy ua then
               (case ua of
                  JStr s \<Rightarrow>
                    if list_ex (\<lambda>agent. str_includes (toLowerCase s) agent) suspiciousAgents then
                      (case js_field event ''ip_address'' of
                         Inl err \<Rightarrow> Inl err
                       | Inr ip \<Rightarrow>
                           count_reaches (api_get_events None 100 w)
                             (same_ip_recent (env_parse_date env) ip since) (threshold pat))
                    else Inr False
                | _ \<Rightarrow> Inl TypeError)
             else Inr False)
      else if pattern pat = ''rapid_requests'' then
        (case js_field event ''ip_address'' of
           Inl err \<Rightarrow> Inl err
         | Inr ip \<Rightarrow>
             if truthy ip then
               count_reaches (api_get_events None 200 w)
                 (same_ip_recent (env_parse_date env) ip since) (threshold pat)
             else Inr False)
      else if pattern pat = ''off_hours_access'' then
        (case js_field event ''timestamp'' of
           Inl err \<Rightarrow> Inl err
         | Inr ts \<Rightarrow>
             (let isOffHours =
                    (case new_Date (env_parse_date env) ts of
                       None \<Rightarrow> False
                     | Some ms \<Rightarrow>
                         (let hour = getHours (env_tz env) ms in hour < 8 \<or> hour > 18))
              in if isOffHours then
                   (case js_field event ''event_type'' of
                      Inl err \<Rightarrow> Inl err
                    | Inr et \<Rightarrow> Inr (strict_eq et (JStr ''successful_login'')))
                 else Inr False))
      else Inr False)"

text \<open>\<open>checkPattern\<close>: an exception is caught and logged, and the answer is \<open>false\<close>.\<close>

definition checkPattern :: "logger_env \<Rightarrow> security_pattern \<Rightarrow> jsval \<Rightarrow> world \<Rightarrow> bool" where
  "checkPattern env pat event w =
     (case checkPattern_try env pat event w of Inl err \<Rightarrow> False | Inr b \<Rightarrow> b)"

subsection \<open>Alerts and their actions\<close>

definition mapPatternToAlertType :: "string \<Rightarrow> alert_type" where
  "mapPatternToAlertType p =
     (if p = ''failed_login_burst'' then brute_force
      else if p = ''privilege_escalation'' then privilege_escalation
      else if p = ''suspicious_user_agent'' then suspicious_pattern
      else if p = ''rapid_requests'' then suspicious_pattern
      else if p = ''off_hours_access'' then suspicious_pattern
      else suspicious_pattern)"

fun alert_type_name :: "alert_type \<Rightarrow> string" where
  "alert_type_name brute_force = ''brute_force''"
| "alert_type_name suspicious_pattern = ''suspicious_pattern''"
| "alert_type_name privilege_escalation = ''privilege_escalation''"
| "alert_type_name data_breach = ''data_breach''"
| "alert_type_name system_compromise = ''system_compromise''"

text \<open>
  \<open>event.user_id || undefined\<close>, for a field that is a string or \<open>null\<close> as in the rows of
  the events API. A truthy value that is not a string is not modelled and reads as absent.
\<close>

definition or_undefined :: "jsval \<Rightarrow> string option" where
  "or_undefined v = (case v of JStr s \<Rightarrow> if s = [] then None else Some s | _ \<Rightarrow> None)"

text \<open>A value in a template string: \<open>undefined\<close> prints as such.\<close>

definition template :: "string option \<Rightarrow> string" where
  "template x = (case x of None \<Rightarrow> ''undefined'' | Some s \<Rightarrow> s)"

definition print_action :: "string \<Rightarrow> world \<Rightarrow> world" where
  "print_action line w = w\<lparr>action_log := action_log w @ [line]\<rparr>"

text \<open>
  How a call ends: it returns (\<open>Done\<close>), it throws (\<open>Thrown\<close>), both with the world
  reached, or it does not end (\<open>Diverged\<close>). \<open>logEvent\<close> analyses the event it has stored,
  an alert's actions call \<open>logEvent\<close> again, and nothing in the code bounds this
  recursion. The functions between the two take \<open>this.logEvent\<close> as their first argument
  \<open>logEv\<close>; \<open>logEvent\<close> itself counts the nested calls still allowed and answers
  \<open>Diverged\<close> when none is left.

  In \<open>logEvent\<close> the value handed to \<open>analyzePatterns\<close> is the parsed response body,
  the object \<open>{ event }\<close>. The alert callbacks registered with \<open>onAlert\<close> are code of the
  caller, each run inside its own \<open>try\<close>; they and \<open>sendToExternalSystems\<close> are left
  out, as is the random id of an alert.
\<close>

datatype outcome = Diverged | Thrown world | Done world

type_synonym log_event = "event_data \<Rightarrow> world \<Rightarrow> outcome"

definition SecurityLogger_blockIP :: "log_event \<Rightarrow> string option \<Rightarrow> world \<Rightarrow> outcome" where
  "SecurityLogger_blockIP logEv ip w =
     logEv
       \<lparr> data_event_type = ''ip_blocked'', data_severity = Medium, data_user_id = None,
         data_ip_address = ip, data_user_agent = None, data_resource = Some ''security'',
         data_action = Some ''block_ip'',
         data_details = Some [(''reason'', JStr ''security_alert''),
                              (''blocked_ip'', (case ip of None \<Rightarrow> JUndefined | Some s \<Rightarrow> JStr s))] \<rparr>
       (print_action (''[ACTION] Blocking IP: '' @ template ip) w)"

definition blockUser :: "log_event \<Rightarrow> string \<Rightarrow> world \<Rightarrow> outcome" where
  "blockUser logEv userId w =
     logEv
       \<lparr> data_event_type = ''user_blocked'', data_severity = High, data_user_id = Some userId,
         data_ip_address = None, data_user_agent = None, data_resource = Some ''security'',
         data_action = Some ''block_user'',
         data_details = Some [(''reason'', JStr ''security_alert'')] \<rparr>
       (print_action (''[ACTION] Blocking user: '' @ userId) w)"

definition notifyAdmins :: "log_event \<Rightarrow> security_alert \<Rightarrow> world \<Rightarrow> outcome" where
  "notifyAdmins logEv alert w =
     logEv
       \<lparr> data_event_type = ''admin_notification_sent'', data_severity = Low, data_user_id = None,
         data_ip_address = None, data_user_agent = None, data_resource = Some ''security'',
         data_action = Some ''notify_admin'',
         data_details = Some [(''alert_type'', JStr (alert_type_name (alert_type alert)))] \<rparr>
       (print_action (''[ACTION] Notifying admins about: '' @ alert_title alert) w)"

text \<open>The \<open>switch\<close> of \<open>executeAlertActions\<close> for one action.\<close>

definition alertAction :: "log_event \<Rightarrow> string \<Rightarrow> security_alert \<Rightarrow> world \<Rightarrow> outcome" where
  "alertAction logEv act alert w =
     (if act = ''block_ip'' then SecurityLogger_blockIP logEv (sourceIP alert) w
      else if act = ''block_user'' then
        (case affectedUser alert of
           Some userId \<Rightarrow> blockUser logEv userId w
         | None \<Rightarrow> Done w)
      else if act = ''notify_admin'' then notifyAdmins logEv alert w
      else if act = ''require_mfa'' then
        Done (print_action (''[ACTION] Requiring MFA for user: '' @ template (affectedUser alert)) w)
      else if act = ''increase_monitoring'' then
        Done (print_action (''[ACTION] Increasing monitoring for IP: '' @ template (sourceIP alert)) w)
      else if act = ''rate_limit'' then
        Done (print_action (''[ACTION] Applying rate limit to IP: '' @ template (sourceIP alert)) w)
      else if act = ''require_captcha'' then
        Done (print_action (''[ACTION] Requiring CAPTCHA for IP: '' @ template (sourceIP alert)) w)
      else Done w)"

text \<open>The loop over the actions; a failing action is caught and the next one runs.\<close>

fun executeAlertActions :: "log_event \<Rightarrow> string list \<Rightarrow> security_alert \<Rightarrow> world \<Rightarrow> outcome" where
  "executeAlertActions logEv [] alert w = Done w"
| "executeAlertActions logEv (act # rest) alert w =
     (case alertAction logEv act alert w of
        Diverged \<Rightarrow> Diverged
      | Thrown w1 \<Rightarrow> executeAlertActions logEv rest alert w1
      | Done w1 \<Rightarrow> executeAlertActions logEv rest alert w1)"

definition generateAlert ::
  "log_event \<Rightarrow> logger_env \<Rightarrow> security_pattern \<Rightarrow> jsval \<Rightarrow> world \<Rightarrow> outcome" where
  "generateAlert logEv env pat event w =
     (case js_field event ''user_id'' of
        Inl err \<Rightarrow> Thrown w
      | Inr uid \<Rightarrow>
          (case js_field event ''ip_address'' of
             Inl err \<Rightarrow> Thrown w
           | Inr ip \<Rightarrow>
               (let alert =
                      \<lparr> alert_type = mapPatternToAlertType (pattern pat),
                        alert_severity = pattern_severity pat,
                        alert_title = ''Security Alert: '' @ pattern_description pat,
                        alert_description =
                          ''Pattern '' @ [CHR 0x22] @ pattern pat @ [CHR 0x22] @ '' detected. ''
                            @ pattern_description pat,
                        affectedUser = or_undefined uid,
                        sourceIP = or_undefined ip,
                        alert_timestamp = env_now env,
                        isActive = True,
                        alert_actions = pattern_actions pat \<rparr>
                in executeAlertActions logEv (alert_actions alert) alert
                     (w\<lparr>raised_alerts := raised_alerts w @ [alert]\<rparr>))))"

fun analyzePatterns ::
  "log_event \<Rightarrow> logger_env \<Rightarrow> security_pattern list \<Rightarrow> jsval \<Rightarrow> world \<Rightarrow> outcome" where
  "analyzePatterns logEv env [] event w = Done w"
| "analyzePatterns logEv env (pat # rest) event w =
     (if checkPattern env pat event w then
        (case generateAlert logEv env pat event w of
           Diverged \<Rightarrow> Diverged
         | Thrown w1 \<Rightarrow> Thrown w1
         | Done w1 \<Rightarrow> analyzePatterns logEv env rest event w1)
      else analyzePatterns logEv env rest event w)"

text \<open>
  \<open>logEvent\<close>: everything happens inside one \<open>try\<close>, so an exception ends the call
  normally.
\<close>

primrec logEvent :: "nat \<Rightarrow> logger_env \<Rightarrow> event_data \<Rightarrow> world \<Rightarrow> outcome" where
  "logEvent 0 = (\<lambda>env eventData w. Diverged)"
| "logEvent (Suc n) = (\<lambda>env eventData w.
     (case api_post_event env eventData w of
        (response, w1) \<Rightarrow>
          if \<not> resp_ok response then Done w1
          else (case analyzePatterns (logEvent n env) env patterns (resp_json response) w1 of
                  Diverged \<Rightarrow> Diverged
                | Thrown w2 \<Rightarrow> Done w2
                | Done w2 \<Rightarrow> Done w2)))"

text \<open>A \<open>logEvent\<close> that leaves the state of the request gate as it finds it.\<close>

definition keeps_gate :: "log_event \<Rightarrow> bool" where
  "keeps_gate logEv =
     (\<forall>d w w'. logEv d w = Done w' \<or> logEv d w = Thrown w' \<longrightarrow> gate w' = gate w)"

section \<open>One-time passwords (lib/crypto/totp.ts)\<close>

type_synonym byte = "8 word"
type_synonym u32 = "32 word"

subsection \<open>HMAC-SHA-1, the primitive behind \<open>crypto.subtle.sign\<close>\<close>

text \<open>
  \<open>hmacSha1\<close> calls the platform's Web Crypto implementation of HMAC (RFC 2104) over
  SHA-1 (FIPS 180-4). Both are written out here on bytes and 32-bit words, so that codes
  can be computed for concrete secrets. \<open>crypto.subtle.importKey\<close> refuses a key of
  length zero with a \<open>DataError\<close>, which rejects the promise of \<open>hmacSha1\<close>.
\<close>

definition rotl :: "nat \<Rightarrow> u32 \<Rightarrow> u32" where
  "rotl n x = push_bit n x OR drop_bit (32 - n) x"

definition be32 :: "byte \<Rightarrow> byte \<Rightarrow> byte \<Rightarrow> byte \<Rightarrow> u32" where
  "be32 a b c d =
     push_bit 24 (ucast a) OR push_bit 16 (ucast b) OR push_bit 8 (ucast c) OR ucast d"

fun words_of :: "byte list \<Rightarrow> u32 list" where
  "words_of (a # b # c # d # rest) = be32 a b c d # words_of rest"
| "words_of _ = []"

definition bytes_of_u32 :: "u32 \<Rightarrow> byte list" where
  "bytes_of_u32 x =
     [ucast (drop_bit 24 x), ucast (drop_bit 16 x), ucast (drop_bit 8 x), ucast x]"

definition length_bytes :: "nat \<Rightarrow> byte list" where
  "length_bytes n =
     (let bits = (word_of_nat (8 * n) :: 64 word)
      in map (\<lambda>i. ucast (drop_bit (8 * (7 - i)) bits)) [0, 1, 2, 3, 4, 5, 6, 7])"

definition sha1_pad :: "byte list \<Rightarrow> byte list" where
  "sha1_pad msg =
     msg @ [0x80] @ replicate ((119 - length msg mod 64) mod 64) 0 @ length_bytes (length msg)"

text \<open>The message schedule is built newest word first and reversed at the end.\<close>

definition schedule_step :: "u32 list \<Rightarrow> u32 list" where
  "schedule_step ws = rotl 1 (ws ! 2 XOR ws ! 7 XOR ws ! 13 XOR ws ! 15) # ws"

definition schedule :: "u32 list \<Rightarrow> u32 list" where
  "schedule block = rev (fold (\<lambda>_. schedule_step) [16..<80] (rev block))"

definition f_ch :: "u32 \<Rightarrow> u32 \<Rightarrow> u32 \<Rightarrow> u32" where
  "f_ch b c d = (b AND c) OR (NOT b AND d)"

definition f_parity :: "u32 \<Rightarrow> u32 \<Rightarrow> u32 \<Rightarrow> u32" where
  "f_parity b c d = b XOR c XOR d"

definition f_maj :: "u32 \<Rightarrow> u32 \<Rightarrow> u32 \<Rightarrow> u32" where
  "f_maj b c d = (b AND c) OR (b AND d) OR (c AND d)"

type_synonym sha1_state = "u32 \<times> u32 \<times> u32 \<times> u32 \<times> u32"

fun sha1_rounds ::
  "(u32 \<Rightarrow> u32 \<Rightarrow> u32 \<Rightarrow> u32) \<Rightarrow> u32 \<Rightarrow> u32 list \<Rightarrow> sha1_state \<Rightarrow> sha1_state" where
  "sha1_rounds f k [] st = st"
| "sha1_rounds f k (w # ws) (a, b, c, d, e) =
     sha1_rounds f k ws (rotl 5 a + f b c d + e + k + w, a, rotl 30 b, c, d)"

definition add_state :: "sha1_state \<Rightarrow> sha1_state \<Rightarrow> sha1_state" where
  "add_state h s =
     (case h of (h0, h1, h2, h3, h4) \<Rightarrow>
        (case s of (a, b, c, d, e) \<Rightarrow> (h0 + a, h1 + b, h2 + c, h3 + d, h4 + e)))"

definition sha1_block :: "sha1_state \<Rightarrow> byte list \<Rightarrow> sha1_state" where
  "sha1_block h blk =
     (let w = schedule (words_of blk)
      in add_state h
           (sha1_rounds f_parity 0xCA62C1D6 (drop 60 w)
             (sha1_rounds f_maj 0x8F1BBCDC (take 20 (drop 40 w))
               (sha1_rounds f_parity 0x6ED9EBA1 (take 20 (drop 20 w))
                 (sha1_rounds f_ch 0x5A827999 (take 20 w) h)))))"

fun sha1_blocks :: "nat \<Rightarrow> sha1_state \<Rightarrow> byte list \<Rightarrow> sha1_state" where
  "sha1_blocks 0 h bs = h"
| "sha1_blocks (Suc n) h bs = sha1_blocks n (sha1_block h (take 64 bs)) (drop 64 bs)"

definition sha1_init :: sha1_state where
  "sha1_init = (0x67452301, 0xEFCDAB89, 0x98BADCFE, 0x10325476, 0xC3D2E1F0)"

definition digest_bytes :: "sha1_state \<Rightarrow> byte list" where
  "digest_bytes s = (case s of (a, b, c, d, e) \<Rightarrow> concat (map bytes_of_u32 [a, b, c, d, e]))"

definition sha1 :: "byte list \<Rightarrow> byte list" where
  "sha1 msg =
     (let p = sha1_pad msg in digest_bytes (sha1_blocks (length p div 64) sha1_init p))"

definition hmac_key_block :: "byte list \<Rightarrow> byte list" where
  "hmac_key_block key =
     (let k = (if length key > 64 then sha1 key else key) in k @ replicate (64 - length k) 0)"

definition hmac_sha1 :: "byte list \<Rightarrow> byte list \<Rightarrow> byte list" where
  "hmac_sha1 key data =
     sha1 (map (\<lambda>b. b XOR 0x5c) (hmac_key_block key)
           @ sha1 (map (\<lambda>b. b XOR 0x36) (hmac_key_block key) @ data))"

definition hmacSha1 :: "byte list \<Rightarrow> byte list \<Rightarrow> js_error + byte list" where
  "hmacSha1 key data = (if key = [] then Inl DataError else Inr (hmac_sha1 key data))"

subsection \<open>Base32 and the time counter\<close>

definition BASE32_CHARS :: string where
  "BASE32_CHARS = ''ABCDEFGHIJKLMNOPQRSTUVWXYZ234567''"

text \<open>\<open>s.indexOf(c)\<close>, \<open>None\<close> for \<open>-1\<close>.\<close>

fun indexOf :: "string \<Rightarrow> char \<Rightarrow> nat option" where
  "indexOf [] c = None"
| "indexOf (x # xs) c =
     (if x = c then Some 0 else (case indexOf xs c of None \<Rightarrow> None | Some i \<Rightarrow> Some (Suc i)))"

definition toUpperCase :: "string \<Rightarrow> string" where
  "toUpperCase s =
     map (\<lambda>c. let n = (of_char c :: nat) in if 97 \<le> n \<and> n \<le> 122 then char_of (n - 32) else c) s"

text \<open>
  The loop of \<open>decodeBase32\<close>. \<open>buffer\<close> is never masked; the bitwise operators keep
  its low 32 bits, and at most the low 12 are read.
\<close>

fun decode_loop :: "string \<Rightarrow> u32 \<Rightarrow> nat \<Rightarrow> byte list" where
  "decode_loop [] buffer bitsLeft = []"
| "decode_loop (c # cs) buffer bitsLeft =
     (case indexOf BASE32_CHARS c of
        None \<Rightarrow> decode_loop cs buffer bitsLeft
      | Some v \<Rightarrow>
          (let buffer = push_bit 5 buffer OR of_nat v;
               bitsLeft = bitsLeft + 5
           in if bitsLeft \<ge> 8 then
                ucast (drop_bit (bitsLeft - 8) buffer AND 255) # decode_loop cs buffer (bitsLeft - 8)
              else decode_loop cs buffer bitsLeft))"

definition decodeBase32 :: "string \<Rightarrow> byte list" where
  "decodeBase32 encoded =
     (let cleanInput = filter (\<lambda>c. c \<in> set BASE32_CHARS) (toUpperCase encoded)
      in decode_loop cleanInput 0 0)"

text \<open>
  \<open>intToBytes\<close>: eight bytes, filled from the last one with \<open>num & 0xff\<close> and
  \<open>num >>> 8\<close>. Both operators work on the low 32 bits of \<open>num\<close>, so the first four
  bytes are always 0.
\<close>

fun intToBytes_loop :: "nat \<Rightarrow> u32 \<Rightarrow> byte list \<Rightarrow> byte list" where
  "intToBytes_loop 0 num bytes = bytes"
| "intToBytes_loop (Suc i) num bytes =
     intToBytes_loop i (drop_bit 8 num) (ucast (num AND 0xff) # bytes)"

definition intToBytes :: "int \<Rightarrow> byte list" where
  "intToBytes num = intToBytes_loop 8 (word_of_int num) []"

subsection \<open>generateTOTP and verifyTOTP\<close>

text \<open>Reading a \<open>Uint8Array\<close> inside a bitwise expression: out of range gives 0.\<close>

definition byte_at :: "byte list \<Rightarrow> nat \<Rightarrow> u32" where
  "byte_at bytes i = (if i < length bytes then ucast (bytes ! i) else 0)"

text \<open>\<open>n.toString()\<close> for a natural number, and \<open>padStart\<close>.\<close>

definition digit :: "nat \<Rightarrow> char" where
  "digit n = ''0123456789'' ! n"

fun toString :: "nat \<Rightarrow> string" where
  "toString n =
     (if n < 10 then [digit n]
      else toString (n div 10) @ [digit (n mod 10)])"

declare toString.simps [simp del]

definition padStart :: "nat \<Rightarrow> char \<Rightarrow> string \<Rightarrow> string" where
  "padStart n c s = replicate (n - length s) c @ s"

text \<open>
  \<open>generateTOTP\<close>. \<open>clock\<close> is what \<open>Date.now()\<close> returns, in milliseconds; the
  optional \<open>timestamp\<close> goes through \<open>timestamp || Date.now()\<close>, which takes the clock
  also for the timestamp 0. Times are whole milliseconds, for which
  \<open>Math.floor(t / 1000 / 30)\<close> is \<open>t div 30000\<close>.
\<close>

definition timeStep :: "int \<Rightarrow> int option \<Rightarrow> int" where
  "timeStep clock timestamp =
     (case timestamp of
        None \<Rightarrow> clock
      | Some t \<Rightarrow> if t \<noteq> 0 then t else clock) div 30000"

definition truncate_code :: "byte list \<Rightarrow> nat" where
  "truncate_code hmac =
     (let offset = unat (byte_at hmac (length hmac - 1) AND 0x0f)
      in unat (push_bit 24 (byte_at hmac offset AND 0x7f)
               OR push_bit 16 (byte_at hmac (offset + 1) AND 0xff)
               OR push_bit 8 (byte_at hmac (offset + 2) AND 0xff)
               OR (byte_at hmac (offset + 3) AND 0xff)) mod 10 ^ 6)"

definition generateTOTP :: "int \<Rightarrow> string \<Rightarrow> int option \<Rightarrow> js_error + string" where
  "generateTOTP clock secret timestamp =
     (let time = timeStep clock timestamp;
          key = decodeBase32 secret;
          timeBytes = intToBytes time
      in case hmacSha1 key timeBytes of
           Inl err \<Rightarrow> Inl err
         | Inr hmac \<Rightarrow> Inr (padStart 6 CHR ''0'' (toString (truncate_code hmac))))"



text \<open>The secret of the test vectors of RFC 4226 and RFC 6238, the ASCII digits 1234567890 twice.\<close>

definition rfcSecret :: string where
  "rfcSecret = ''GEZDGNBVGY3TQOJQGEZDGNBVGY3TQOJQ''"


subsection \<open>Example policies and contexts\<close>

definition adminUser :: user where
  "adminUser = \<lparr> user_id = ''u1'', user_email = ''root@admin.com'', user_name = ''Root'',
     user_role = ''admin'', user_permissions = [], user_mfaEnabled = True,
     user_lastLogin = 0, user_failedAttempts = 0, user_isLocked = False,
     user_createdAt = 0, user_updatedAt = 0 \<rparr>"

definition adminFullAccess :: abac_policy where
  "adminFullAccess = \<lparr> policy_id = ''admin-full-access'', policy_name = ''Admin Full Access'',
        policy_description = ''Administrators have full access to all resources'',
        policy_subject = [(''role'', JStr ''admin'')],
        policy_resource = [(''type'', JStr ''*'')],
        policy_action = ''*'', policy_environment = [],
        policy_effect = Allow, policy_priority = 100 \<rparr>"

definition userOwnData :: abac_policy where
  "userOwnData = \<lparr> policy_id = ''user-own-data'', policy_name = ''User Own Data Access'',
        policy_description = ''Users can read and write their own data'',
        policy_subject = [(''role'', JStr ''user'')],
        policy_resource = [(''type'', JStr ''user-data'')],
        policy_action = ''read|write'', policy_environment = [],
        policy_effect = Allow, policy_priority = 50 \<rparr>"

definition adminReadsReport :: policy_context where
  "adminReadsReport = \<lparr> ctx_user = adminUser, ctx_resource = [(''type'', JStr ''report'')],
     ctx_action = ''read'', ctx_environment = [(''time'', JDate 0)] \<rparr>"

definition anyAgentPolicy :: abac_policy where
  "anyAgentPolicy = \<lparr> policy_id = ''any-agent'', policy_name = ''Any agent'',
        policy_description = ''Wildcard in the environment matcher'',
        policy_subject = [], policy_resource = [],
        policy_action = ''*'', policy_environment = [(''userAgent'', JStr ''*'')],
        policy_effect = Allow, policy_priority = 10 \<rparr>"

definition anyIPPolicy :: abac_policy where
  "anyIPPolicy = \<lparr> policy_id = ''any-ip'', policy_name = ''Any IP'',
        policy_description = ''Wildcard IP in the environment matcher'',
        policy_subject = [], policy_resource = [],
        policy_action = ''*'', policy_environment = [(''ipAddress'', JStr ''*'')],
        policy_effect = Allow, policy_priority = 10 \<rparr>"


subsection \<open>Example events\<close>

text \<open>The row that the login route stores for a failed login, here under a given type.\<close>

definition loginRow :: "string \<Rightarrow> string \<Rightarrow> int \<Rightarrow> security_event" where
  "loginRow type ip t =
     \<lparr> event_type = type, event_severity = Medium, event_user_id = None,
       event_ip_address = Some ip, event_user_agent = Some ''Mozilla/5.0'',
       event_resource = None, event_action = None,
       event_details = [(''reason'', JStr ''user_not_found'')], event_timestamp = t \<rparr>"

definition loginData :: "string \<Rightarrow> string \<Rightarrow> event_data" where
  "loginData type ip =
     \<lparr> data_event_type = type, data_severity = Medium, data_user_id = None,
       data_ip_address = Some ip, data_user_agent = Some ''Mozilla/5.0'',
       data_resource = None, data_action = None,
       data_details = Some [(''reason'', JStr ''user_not_found'')] \<rparr>"

text \<open>Four logins of one type from 10.0.0.5, two minutes apart, and nothing else.\<close>

definition fourLogins :: "string \<Rightarrow> world" where
  "fourLogins type =
     \<lparr> db_events = map (\<lambda>t. loginRow type ''10.0.0.5'' t) [0, 120000, 240000, 360000],
       gate = initial_middleware_state, raised_alerts = [], action_log = [] \<rparr>"

text \<open>
  The clock at \<open>t\<close>, in a zone at UTC, on a platform with the date parser \<open>parse\<close>;
  \<open>eightMinutes\<close> is eight minutes after the first login.
\<close>

definition atTime :: "(string \<Rightarrow> int option) \<Rightarrow> int \<Rightarrow> logger_env" where
  "atTime parse t =
     \<lparr> env_now = t, env_tz = 0, env_parse_date = parse,
       env_client_ip = None, env_client_user_agent = None \<rparr>"

definition eightMinutes :: "(string \<Rightarrow> int option) \<Rightarrow> logger_env" where
  "eightMinutes parse = atTime parse 480000"

section \<open>Verified properties\<close>

subsection \<open>Policy evaluation\<close>

lemma evaluate_loop_deny:
  "decision acc = Deny \<Longrightarrow> evaluate_loop tz ps ctx acc = Inr r \<Longrightarrow> decision r = Deny"
proof (induction ps arbitrary: acc)
  case Nil
  then show ?case by simp
next
  case (Cons p ps)
  show ?case
  proof (cases "matchesPolicy tz p ctx")
    case (Inl e)
    with Cons.prems show ?thesis by simp
  next
    case (Inr b)
    show ?thesis
    proof (cases b)
      case False
      with Inr Cons show ?thesis by simp
    next
      case True
      let ?acc1 = "acc\<lparr>matchedPolicies := matchedPolicies acc @ [p]\<rparr>"
      have d: "decision ?acc1 = Deny" using Cons.prems(1) by simp
      show ?thesis
      proof (cases "policy_effect p = Deny")
        case True
        with Inr \<open>b\<close> Cons.prems(2) show ?thesis by (auto simp: Let_def)
      next
        case False
        with Inr \<open>b\<close> Cons.prems d have "evaluate_loop tz ps ctx ?acc1 = Inr r"
          by (simp add: Let_def)
        with d show ?thesis by (rule Cons.IH)
      qed
    qed
  qed
qed

lemma evaluate_never_allows: "evaluate tz ps ctx = Inr r \<Longrightarrow> decision r = Deny"
  unfolding evaluate_def by (erule evaluate_loop_deny [rotated]) simp

lemma matches_admin: "matchesPolicy tz adminFullAccess adminReadsReport = Inr True"
  by (simp add: matchesPolicy_def adminFullAccess_def adminReadsReport_def adminUser_def
      getUserAttributes_def matchesAction_def get_prop_def)

text \<open>
  Claim C1 says that, absent a matching deny, the decision is allow as soon as one
  matching policy has effect allow. In \<open>evaluate\<close> the assignment of allow is guarded by
  \<open>finalDecision !== "deny"\<close> while \<open>finalDecision\<close> starts as deny, so the guard never
  holds (\<open>evaluate_never_allows\<close>). C1 at the failing input: the engine holds the single
  policy admin-full-access (allow), an administrator reads a report, the policy matches
  and is recorded, and the decision is still deny, with the reason of the default.
\<close>

theorem evaluate_single_allow_is_denied:
  "evaluate tz (ABACPolicyEngine [adminFullAccess]) adminReadsReport =
     Inr \<lparr>decision = Deny, matchedPolicies = [adminFullAccess],
          reason = ''No matching policies found''\<rparr>"
  by (simp add: evaluate_def ABACPolicyEngine_def matches_admin)
     (simp add: adminFullAccess_def)

lemma evaluate_loop_nomatch:
  "\<forall>p \<in> set ps. matchesPolicy tz p ctx = Inr False \<Longrightarrow> evaluate_loop tz ps ctx acc = Inr acc"
  by (induction ps) auto

text \<open>
  Claim C8: for every context, evaluation against the empty policy set, or against a
  policy set of which no policy matches the context, yields decision deny, no matched
  policy, and the default reason, whose text in the code is
  \<open>No matching policies found\<close>.
\<close>

theorem evaluate_default_deny:
  "evaluate tz [] ctx =
     Inr \<lparr>decision = Deny, matchedPolicies = [], reason = ''No matching policies found''\<rparr>
   \<and> ((\<forall>p \<in> set ps. matchesPolicy tz p ctx = Inr False) \<longrightarrow>
        evaluate tz ps ctx =
          Inr \<lparr>decision = Deny, matchedPolicies = [], reason = ''No matching policies found''\<rparr>)"
  by (simp add: evaluate_def evaluate_loop_nomatch)

lemma nomatch_userOwnData: "matchesPolicy tz userOwnData adminReadsReport = Inr False"
  by (simp add: matchesPolicy_def userOwnData_def adminReadsReport_def adminUser_def
      getUserAttributes_def matchesAction_def get_prop_def)

theorem evaluate_default_deny_witness:
  "matchesPolicy 0 userOwnData adminReadsReport = Inr False
   \<and> evaluate 0 (ABACPolicyEngine [userOwnData]) adminReadsReport =
       Inr \<lparr>decision = Deny, matchedPolicies = [], reason = ''No matching policies found''\<rparr>"
proof -
  have h: "\<forall>p \<in> set (ABACPolicyEngine [userOwnData]). matchesPolicy 0 p adminReadsReport = Inr False"
    by (simp add: ABACPolicyEngine_def nomatch_userOwnData)
  with evaluate_default_deny [of 0 adminReadsReport "ABACPolicyEngine [userOwnData]"]
  show ?thesis by (simp add: nomatch_userOwnData)
qed

subsection \<open>Wildcards\<close>

lemma map_of_set_prop: "map_of (set_prop k v obj) = (map_of obj)(k \<mapsto> v)"
  by (induction obj) (auto simp: fun_eq_iff)

lemma map_of_spread: "map_of (spread base ext) = map_of base ++ map_of (rev ext)"
  unfolding spread_def
  by (induction ext arbitrary: base) (auto simp: map_of_set_prop fun_eq_iff map_add_def split: option.splits)

lemma matchesAttributes_skip_wildcard:
  "matchesAttributes (pre @ (key, JStr ''*'') # post) contextAttrs =
   matchesAttributes (pre @ post) contextAttrs"
proof (induction pre)
  case Nil
  show ?case by simp
next
  case (Cons a pre)
  then show ?case
    by (cases a) (simp add: Let_def cong: jsval.case_cong if_cong)
qed

lemma regex_test_star: "regex_test (compile_glob ''*'') s"
  by (cases s) (simp_all add: compile_glob_def)

lemma matchesIPPattern_star: "ip \<noteq> [] \<Longrightarrow> matchesIPPattern ''*'' (JStr ip) = Inr True"
  by (simp add: matchesIPPattern_def re_meta_def regex_test_star)

lemma matchesEnvironment_skip_ip_wildcard:
  "get_prop contextEnv ''ipAddress'' = JStr ip \<Longrightarrow> ip \<noteq> [] \<Longrightarrow>
   matchesEnvironment tz (pre @ (''ipAddress'', JStr ''*'') # post) contextEnv =
   matchesEnvironment tz (pre @ post) contextEnv"
proof (induction pre)
  case Nil
  then show ?case by (simp add: matchesIPPattern_star)
next
  case (Cons a pre)
  then show ?case
    by (cases a) (simp add: Let_def cong: jsval.case_cong sum.case_cong if_cong)
qed

text \<open>
  The environment matcher is a conjunction from left to right: the entries before a given
  one decide first.
\<close>

lemma matchesEnvironment_append:
  "matchesEnvironment tz (pre @ post) contextEnv =
     (if matchesEnvironment tz pre contextEnv = Inr True
      then matchesEnvironment tz post contextEnv
      else matchesEnvironment tz pre contextEnv)"
proof (induction pre)
  case Nil
  show ?case by simp
next
  case (Cons a pre)
  obtain key val where a: "a = (key, val)" by (cases a)
  show ?case
    unfolding a append_Cons matchesEnvironment.simps Cons.IH
    by (simp add: Let_def split: sum.splits jsval.splits)
qed

lemma strict_eq_star: "strict_eq (JStr s) v \<longleftrightarrow> v = JStr s"
  by (cases v) auto

lemma matchesEnvironment_ip_wildcard_falsy:
  "\<not> truthy (get_prop contextEnv ''ipAddress'') \<Longrightarrow>
   matchesEnvironment tz ((''ipAddress'', JStr ''*'') # post) contextEnv = Inr False"
  by (simp add: matchesIPPattern_def)

lemma matchesEnvironment_other_key_star:
  "key \<noteq> ''ipAddress'' \<Longrightarrow>
   matchesEnvironment tz ((key, JStr ''*'') # post) contextEnv =
     (if get_prop contextEnv key = JStr ''*'' then matchesEnvironment tz post contextEnv
      else Inr False)"
  by (simp add: strict_eq_star)

text \<open>
  Claim C3, amended: a policy value \<open>*\<close> under any key of the subject or of the resource
  matcher puts no condition on the context (the entry is skipped, whatever the context
  holds for that key, also nothing), and the action pattern \<open>*\<close> matches every action.
  In the environment matcher \<open>*\<close> under the key \<open>ipAddress\<close> is skipped in the same way
  for a context whose IP address is a non-empty string, and fails for a context whose IP
  address is absent or otherwise falsy: the entries before it decide, and if they all
  pass the result is \<open>false\<close>. Under every other environment key \<open>*\<close> is compared by
  strict equality: the entry passes for the context value \<open>*\<close> alone, and fails for
  every other value and for an absent one.
\<close>

theorem wildcard_matches:
  "matchesAttributes (pre @ (key, JStr ''*'') # post) contextAttrs =
     matchesAttributes (pre @ post) contextAttrs
   \<and> matchesAttributes [(key, JStr ''*'')] contextAttrs
   \<and> matchesAction ''*'' contextAction
   \<and> (get_prop contextEnv ''ipAddress'' = JStr ip \<and> ip \<noteq> [] \<longrightarrow>
        matchesEnvironment tz (pre @ (''ipAddress'', JStr ''*'') # post) contextEnv =
          matchesEnvironment tz (pre @ post) contextEnv)
   \<and> (\<not> truthy (get_prop contextEnv ''ipAddress'') \<longrightarrow>
        matchesEnvironment tz (pre @ (''ipAddress'', JStr ''*'') # post) contextEnv =
          (if matchesEnvironment tz pre contextEnv = Inr True then Inr False
           else matchesEnvironment tz pre contextEnv))
   \<and> (key \<noteq> ''ipAddress'' \<longrightarrow>
        matchesEnvironment tz (pre @ (key, JStr ''*'') # post) contextEnv =
          (if matchesEnvironment tz pre contextEnv = Inr True
           then (if get_prop contextEnv key = JStr ''*''
                 then matchesEnvironment tz post contextEnv else Inr False)
           else matchesEnvironment tz pre contextEnv))"
proof (intro conjI impI)
  show "matchesAttributes (pre @ (key, JStr ''*'') # post) contextAttrs =
     matchesAttributes (pre @ post) contextAttrs"
    by (rule matchesAttributes_skip_wildcard)
  show "matchesAttributes [(key, JStr ''*'')] contextAttrs"
    by simp
  show "matchesAction ''*'' contextAction"
    by (simp add: matchesAction_def)
  show "matchesEnvironment tz (pre @ (''ipAddress'', JStr ''*'') # post) contextEnv =
          matchesEnvironment tz (pre @ post) contextEnv"
    if "get_prop contextEnv ''ipAddress'' = JStr ip \<and> ip \<noteq> []"
  proof -
    from that have "get_prop contextEnv ''ipAddress'' = JStr ip" and "ip \<noteq> []"
      by simp_all
    then show ?thesis by (rule matchesEnvironment_skip_ip_wildcard)
  qed
  show "matchesEnvironment tz (pre @ (''ipAddress'', JStr ''*'') # post) contextEnv =
          (if matchesEnvironment tz pre contextEnv = Inr True then Inr False
           else matchesEnvironment tz pre contextEnv)"
    if "\<not> truthy (get_prop contextEnv ''ipAddress'')"
    by (simp only: matchesEnvironment_append [of tz pre]
        matchesEnvironment_ip_wildcard_falsy [OF that])
  show "matchesEnvironment tz (pre @ (key, JStr ''*'') # post) contextEnv =
          (if matchesEnvironment tz pre contextEnv = Inr True
           then (if get_prop contextEnv key = JStr ''*''
                 then matchesEnvironment tz post contextEnv else Inr False)
           else matchesEnvironment tz pre contextEnv)"
    if "key \<noteq> ''ipAddress''"
    by (simp only: matchesEnvironment_append [of tz pre]
        matchesEnvironment_other_key_star [OF that])
qed

theorem wildcard_matches_witness:
  "get_prop [(''ipAddress'', JStr ''10.0.0.5'')] ''ipAddress'' = JStr ''10.0.0.5'' \<and> ''10.0.0.5'' \<noteq> []
   \<and> matchesEnvironment 0 ([] @ (''ipAddress'', JStr ''*'') # []) [(''ipAddress'', JStr ''10.0.0.5'')] = Inr True
   \<and> \<not> truthy (get_prop [] ''ipAddress'')
   \<and> matchesEnvironment 0 ([] @ (''ipAddress'', JStr ''*'') # []) [] = Inr False
   \<and> ''userAgent'' \<noteq> ''ipAddress''
   \<and> matchesEnvironment 0 ([] @ (''userAgent'', JStr ''*'') # []) [(''userAgent'', JStr ''Mozilla/5.0'')]
       = Inr False"
proof -
  have a: "get_prop [(''ipAddress'', JStr ''10.0.0.5'')] ''ipAddress'' = JStr ''10.0.0.5''
           \<and> ''10.0.0.5'' \<noteq> []"
    by (simp add: get_prop_def)
  have b: "\<not> truthy (get_prop [] ''ipAddress'')"
    by (simp add: get_prop_def)
  have c: "''userAgent'' \<noteq> ''ipAddress''" by simp
  from a wildcard_matches [of "[]" "''k''" "[]" "[]" "''read''"
      "[(''ipAddress'', JStr ''10.0.0.5'')]" "''10.0.0.5''" 0]
  have d: "matchesEnvironment 0 ([] @ (''ipAddress'', JStr ''*'') # [])
             [(''ipAddress'', JStr ''10.0.0.5'')] = Inr True"
    by simp
  from b wildcard_matches [of "[]" "''k''" "[]" "[]" "''read''" "[]" "''10.0.0.5''" 0]
  have e: "matchesEnvironment 0 ([] @ (''ipAddress'', JStr ''*'') # []) [] = Inr False"
    by simp
  from c wildcard_matches [of "[]" "''userAgent''" "[]" "[]" "''read''"
      "[(''userAgent'', JStr ''Mozilla/5.0'')]" "''10.0.0.5''" 0]
  have f: "matchesEnvironment 0 ([] @ (''userAgent'', JStr ''*'') # [])
             [(''userAgent'', JStr ''Mozilla/5.0'')] = Inr False"
    by (simp add: get_prop_def)
  from a b c d e f show ?thesis by blast
qed

text \<open>
  Claim C3 as stated fails in the environment matcher: \<open>*\<close> under \<open>userAgent\<close> is
  compared by strict equality with the context's user agent, and \<open>*\<close> under
  \<open>ipAddress\<close> does not match a context without an IP address.
\<close>

theorem wildcard_environment_counterexample:
  "matchesPolicy 0 anyAgentPolicy
     (adminReadsReport\<lparr>ctx_environment := [(''time'', JDate 0), (''userAgent'', JStr ''Mozilla/5.0'')]\<rparr>)
     = Inr False
   \<and> matchesPolicy 0 anyIPPolicy adminReadsReport = Inr False"
  by (simp add: matchesPolicy_def anyAgentPolicy_def anyIPPolicy_def adminReadsReport_def
      matchesAction_def get_prop_def matchesIPPattern_def)

subsection \<open>checkPermission\<close>

lemma get_prop_spread:
  "get_prop (spread base ext) k =
     (case map_of (rev ext) k of None \<Rightarrow> get_prop base k | Some v \<Rightarrow> v)"
  by (simp add: get_prop_def map_of_spread map_add_def split: option.splits)

text \<open>
  Claim C10: \<open>checkPermission\<close> evaluates the policies on a context whose
  \<open>environment.mfaVerified\<close> is \<open>user.mfaEnabled\<close> when the environment argument has
  no key \<open>mfaVerified\<close> (no TOTP verification takes part), and is the caller's value when
  the argument has the key.
\<close>

theorem checkPermission_mfaVerified:
  "checkPermission tz engine now u res act env =
     evaluate tz engine (checkPermission_context now u res act env)
   \<and> (''mfaVerified'' \<notin> fst ` set env \<longrightarrow>
        get_prop (ctx_environment (checkPermission_context now u res act env)) ''mfaVerified''
          = JBool (user_mfaEnabled u))
   \<and> (distinct (map fst env) \<and> (''mfaVerified'', v) \<in> set env \<longrightarrow>
        get_prop (ctx_environment (checkPermission_context now u res act env)) ''mfaVerified'' = v)"
proof (intro conjI impI)
  show "checkPermission tz engine now u res act env =
     evaluate tz engine (checkPermission_context now u res act env)"
    by (simp add: checkPermission_def)
next
  assume "''mfaVerified'' \<notin> fst ` set env"
  then have "map_of (rev env) ''mfaVerified'' = None"
    by (simp add: map_of_eq_None_iff)
  then show "get_prop (ctx_environment (checkPermission_context now u res act env)) ''mfaVerified''
          = JBool (user_mfaEnabled u)"
    by (simp add: checkPermission_context_def get_prop_spread) (simp add: get_prop_def)
next
  assume "distinct (map fst env) \<and> (''mfaVerified'', v) \<in> set env"
  then have "map_of (rev env) ''mfaVerified'' = Some v"
    by (simp add: rev_map [symmetric])
  then show "get_prop (ctx_environment (checkPermission_context now u res act env)) ''mfaVerified'' = v"
    by (simp add: checkPermission_context_def get_prop_spread)
qed

theorem checkPermission_mfaVerified_witness:
  "''mfaVerified'' \<notin> fst ` set [(''ipAddress'', JStr ''10.0.0.5'')]
   \<and> get_prop (ctx_environment (checkPermission_context 0 adminUser [] ''read''
          [(''ipAddress'', JStr ''10.0.0.5'')])) ''mfaVerified'' = JBool True
   \<and> distinct (map fst [(''mfaVerified'', JBool False)])
   \<and> (''mfaVerified'', JBool False) \<in> set [(''mfaVerified'', JBool False)]
   \<and> get_prop (ctx_environment (checkPermission_context 0 adminUser [] ''read''
          [(''mfaVerified'', JBool False)])) ''mfaVerified'' = JBool False"
proof -
  have a: "''mfaVerified'' \<notin> fst ` set [(''ipAddress'', JStr ''10.0.0.5'')]" by simp
  have b: "distinct (map fst [(''mfaVerified'', JBool False)])
    \<and> (''mfaVerified'', JBool False) \<in> set [(''mfaVerified'', JBool False)]" by simp
  from a checkPermission_mfaVerified
    [of 0 "[]" 0 adminUser "[]" "''read''" "[(''ipAddress'', JStr ''10.0.0.5'')]" JUndefined]
  have c: "get_prop (ctx_environment (checkPermission_context 0 adminUser [] ''read''
          [(''ipAddress'', JStr ''10.0.0.5'')])) ''mfaVerified'' = JBool (user_mfaEnabled adminUser)"
    by blast
  from b checkPermission_mfaVerified
    [of 0 "[]" 0 adminUser "[]" "''read''" "[(''mfaVerified'', JBool False)]" "JBool False"]
  have d: "get_prop (ctx_environment (checkPermission_context 0 adminUser [] ''read''
          [(''mfaVerified'', JBool False)])) ''mfaVerified'' = JBool False"
    by blast
  from a b c d show ?thesis by (simp add: adminUser_def)
qed

subsection \<open>Blocklist\<close>

text \<open>
  Claim C4, amended: the gate answers \<open>Blocked\<close> exactly when IP blocking is enabled and
  the source is in the dynamic or in the configured blocklist; the trusted list plays no
  part in it. The check comes before rate limiting: a blocklisted source is \<open>Blocked\<close>
  whatever its bucket holds, and the store is left as it was.
\<close>

theorem blocklist_gate:
  "(fst (securityMiddleware cfg ip tKey tReset tRetry st) = Blocked \<longleftrightarrow>
     enableIPBlocking cfg \<and> (ip \<in> blockedIPs st \<or> ip \<in> set (cfg_blockedIPs cfg)))
   \<and> (enableIPBlocking cfg \<and> (ip \<in> blockedIPs st \<or> ip \<in> set (cfg_blockedIPs cfg)) \<longrightarrow>
        securityMiddleware cfg ip tKey tReset tRetry st = (Blocked, st))"
  by (simp add: securityMiddleware_def Let_def)

theorem blocklist_gate_witness:
  "enableIPBlocking defaultConfig
   \<and> ''10.0.0.5'' \<in> blockedIPs (blockIP ''10.0.0.5'' initial_middleware_state)
   \<and> securityMiddleware defaultConfig ''10.0.0.5'' 1000 1000 1000
         (blockIP ''10.0.0.5'' initial_middleware_state)
       = (Blocked, blockIP ''10.0.0.5'' initial_middleware_state)"
proof -
  have h: "enableIPBlocking defaultConfig
     \<and> ''10.0.0.5'' \<in> blockedIPs (blockIP ''10.0.0.5'' initial_middleware_state)"
    by (simp add: defaultConfig_def blockIP_def)
  with blocklist_gate [of defaultConfig "''10.0.0.5''" 1000 1000 1000
      "blockIP ''10.0.0.5'' initial_middleware_state"]
  show ?thesis by blast
qed

text \<open>
  Claim C4 as stated exempts the trusted sources from the blocklist. The code does not:
  the loopback address, trusted in the default configuration, is \<open>Blocked\<close> once it is
  on the dynamic blocklist.
\<close>

theorem trusted_blocked_counterexample:
  "''127.0.0.1'' \<in> set (trustedIPs defaultConfig)
   \<and> ''127.0.0.1'' \<in> blockedIPs (blockIP ''127.0.0.1'' initial_middleware_state)
   \<and> fst (securityMiddleware defaultConfig ''127.0.0.1'' 1000 1000 1000
            (blockIP ''127.0.0.1'' initial_middleware_state)) = Blocked"
  by (simp add: securityMiddleware_def defaultConfig_def blockIP_def)

subsection \<open>Rate limiting\<close>









subsection \<open>The off-hours pattern\<close>

text \<open>
  On a row of the event table the pattern looks at the hour and the type of that one
  event only: neither the stored events nor the threshold or the window take part.
\<close>

lemma off_hours_single_event:
  "pattern pat = ''off_hours_access'' \<Longrightarrow>
   checkPattern env pat (row_json r) w =
     ((getHours (env_tz env) (event_timestamp r) < 8 \<or> getHours (env_tz env) (event_timestamp r) > 18)
      \<and> event_type r = ''successful_login'')"
  by (simp add: checkPattern_def checkPattern_try_def row_json_def js_field_def get_prop_def
      new_Date_def Let_def)

text \<open>
  Claim C7 says that a successful login whose local hour is 18 or later fires the
  pattern. The test in \<open>checkPattern\<close> is \<open>hour < 8 || hour > 18\<close>, under the comment
  \<open>Outside 8 AM - 6 PM\<close>: a login at 18:30 is outside that interval and does not fire.
  Logins at 07:30 and at 19:00 do.
\<close>

theorem off_hours_misses_hour_18:
  "getHours 0 66600000 = 18
   \<and> checkPattern (atTime parse 66600000) (patterns ! 4)
        (row_json (loginRow ''successful_login'' ''10.0.0.5'' 66600000)) w = False
   \<and> checkPattern (atTime parse 68400000) (patterns ! 4)
        (row_json (loginRow ''successful_login'' ''10.0.0.5'' 68400000)) w = True
   \<and> checkPattern (atTime parse 27000000) (patterns ! 4)
        (row_json (loginRow ''successful_login'' ''10.0.0.5'' 27000000)) w = True"
  by (simp add: off_hours_single_event patterns_def atTime_def loginRow_def getHours_def)

subsection \<open>What the detector does to the blocklist\<close>

text \<open>
  \<open>logEvent\<close> hands the response body \<open>{ event }\<close> to \<open>analyzePatterns\<close>. None of the
  fields that \<open>checkPattern\<close> reads exists on that object, so no pattern matches.
\<close>

lemma checkPattern_response_body:
  "checkPattern env pat (JObj [(''event'', r)]) w = False"
  by (simp add: checkPattern_def checkPattern_try_def js_field_def get_prop_def new_Date_def Let_def)

lemma analyzePatterns_response_body:
  "analyzePatterns logEv env pats (JObj [(''event'', r)]) w = Done w"
  by (induction pats) (simp_all add: checkPattern_response_body)

lemma logEvent_stores_only:
  "logEvent (Suc n) env d w = Done (snd (api_post_event env d w))"
  by (simp add: api_post_event_def Let_def analyzePatterns_response_body)

text \<open>No call of the logger changes the state of the request gate.\<close>

lemma api_post_event_gate: "gate (snd (api_post_event env d w)) = gate w"
  by (simp add: api_post_event_def Let_def)

lemma logEvent_keeps_gate: "keeps_gate (logEvent n env)"
proof (cases n)
  case 0
  then show ?thesis by (simp add: keeps_gate_def)
next
  case (Suc m)
  then show ?thesis
    by (auto simp: keeps_gate_def logEvent_stores_only api_post_event_gate
        simp del: logEvent.simps)
qed

lemma gate_print_action: "gate (print_action line w) = gate w"
  by (simp add: print_action_def)

lemma keeps_gate_Done: "keeps_gate logEv \<Longrightarrow> logEv d w = Done w' \<Longrightarrow> gate w' = gate w"
  by (simp add: keeps_gate_def)

lemma keeps_gate_Thrown: "keeps_gate logEv \<Longrightarrow> logEv d w = Thrown w' \<Longrightarrow> gate w' = gate w"
  by (simp add: keeps_gate_def)

lemma alertAction_gate:
  assumes "keeps_gate logEv"
    and "alertAction logEv act alert w = Done w' \<or> alertAction logEv act alert w = Thrown w'"
  shows "gate w' = gate w"
  using assms(2)
  unfolding alertAction_def SecurityLogger_blockIP_def blockUser_def notifyAdmins_def
  by (auto split: if_splits option.splits
      dest!: keeps_gate_Done [OF assms(1)] keeps_gate_Thrown [OF assms(1)]
      simp: gate_print_action)

lemma executeAlertActions_gate:
  assumes "keeps_gate logEv"
  shows "executeAlertActions logEv acts alert w = Done w'
         \<or> executeAlertActions logEv acts alert w = Thrown w' \<Longrightarrow> gate w' = gate w"
proof (induction acts arbitrary: w)
  case Nil
  then show ?case by simp
next
  case (Cons act acts)
  show ?case
  proof (cases "alertAction logEv act alert w")
    case Diverged
    with Cons.prems show ?thesis by simp
  next
    case (Thrown w1)
    then have "gate w1 = gate w" using alertAction_gate [OF assms] by blast
    moreover from Thrown Cons.prems have "gate w' = gate w1" by (intro Cons.IH) simp
    ultimately show ?thesis by simp
  next
    case (Done w1)
    then have "gate w1 = gate w" using alertAction_gate [OF assms] by blast
    moreover from Done Cons.prems have "gate w' = gate w1" by (intro Cons.IH) simp
    ultimately show ?thesis by simp
  qed
qed

lemma generateAlert_gate:
  assumes "keeps_gate logEv"
    and "generateAlert logEv env pat event w = Done w'
         \<or> generateAlert logEv env pat event w = Thrown w'"
  shows "gate w' = gate w"
proof -
  have d: "executeAlertActions logEv acts alert (w\<lparr>raised_alerts := al\<rparr>) = Done w'
      \<Longrightarrow> gate w' = gate w" for acts alert al
    using executeAlertActions_gate [OF assms(1), of acts alert "w\<lparr>raised_alerts := al\<rparr>" w']
    by simp
  have t: "executeAlertActions logEv acts alert (w\<lparr>raised_alerts := al\<rparr>) = Thrown w'
      \<Longrightarrow> gate w' = gate w" for acts alert al
    using executeAlertActions_gate [OF assms(1), of acts alert "w\<lparr>raised_alerts := al\<rparr>" w']
    by simp
  from assms(2) show ?thesis
    unfolding generateAlert_def Let_def
    by (auto split: sum.splits dest: d t)
qed

text \<open>
  Claim C2 says that the fifth failed login from one address within ten minutes raises
  a brute-force alert, runs \<open>block_ip\<close>, and that the gate then answers \<open>Blocked\<close> to that
  address. With four logins from 10.0.0.5 stored and the fifth logged eight minutes after
  the first, \<open>logEvent\<close> stores the event and raises nothing, under the type the login
  route writes (\<open>login_failed\<close>) and under the type the detector looks for
  (\<open>failed_login\<close>). Even when \<open>generateAlert\<close> is run for the pattern on the fifth row,
  so that the alert (brute force, high) is raised and \<open>block_ip\<close> prints its line and
  logs its event, the state of the gate is the one before, and the gate admits 10.0.0.5.
\<close>

theorem brute_force_never_blocks:
  "logEvent 2 (eightMinutes parse) (loginData ''login_failed'' ''10.0.0.5'') (fourLogins ''login_failed'')
     = Done ((fourLogins ''login_failed'')
               \<lparr>db_events := db_events (fourLogins ''login_failed'')
                   @ [loginRow ''login_failed'' ''10.0.0.5'' 480000]\<rparr>)
   \<and> logEvent 2 (eightMinutes parse) (loginData ''failed_login'' ''10.0.0.5'') (fourLogins ''failed_login'')
     = Done ((fourLogins ''failed_login'')
               \<lparr>db_events := db_events (fourLogins ''failed_login'')
                   @ [loginRow ''failed_login'' ''10.0.0.5'' 480000]\<rparr>)
   \<and> (\<exists>w. generateAlert (logEvent 2 (eightMinutes parse)) (eightMinutes parse) (patterns ! 0)
              (row_json (loginRow ''failed_login'' ''10.0.0.5'' 480000))
              (fourLogins ''failed_login'') = Done w
          \<and> map alert_type (raised_alerts w) = [brute_force]
          \<and> map alert_severity (raised_alerts w) = [High]
          \<and> action_log w ! 0 = ''[ACTION] Blocking IP: 10.0.0.5''
          \<and> map event_type (db_events w) ! 4 = ''ip_blocked''
          \<and> gate w = initial_middleware_state
          \<and> fst (securityMiddleware defaultConfig ''10.0.0.5'' 480000 480000 480000 (gate w))
              = Admitted)"
proof (intro conjI)
  have two: "(2::nat) = Suc (Suc 0)" by simp
  show "logEvent 2 (eightMinutes parse) (loginData ''login_failed'' ''10.0.0.5'') (fourLogins ''login_failed'')
     = Done ((fourLogins ''login_failed'')
               \<lparr>db_events := db_events (fourLogins ''login_failed'')
                   @ [loginRow ''login_failed'' ''10.0.0.5'' 480000]\<rparr>)"
    unfolding two logEvent_stores_only
    by (simp add: api_post_event_def SecurityEventModel_create_def loginData_def loginRow_def
        eightMinutes_def atTime_def or_default_def or_null_def json_stringify_def Let_def)
  show "logEvent 2 (eightMinutes parse) (loginData ''failed_login'' ''10.0.0.5'') (fourLogins ''failed_login'')
     = Done ((fourLogins ''failed_login'')
               \<lparr>db_events := db_events (fourLogins ''failed_login'')
                   @ [loginRow ''failed_login'' ''10.0.0.5'' 480000]\<rparr>)"
    unfolding two logEvent_stores_only
    by (simp add: api_post_event_def SecurityEventModel_create_def loginData_def loginRow_def
        eightMinutes_def atTime_def or_default_def or_null_def json_stringify_def Let_def)
  let ?w = "(fourLogins ''failed_login'')"
  obtain w where w: "generateAlert (logEvent 2 (eightMinutes parse)) (eightMinutes parse) (patterns ! 0)
              (row_json (loginRow ''failed_login'' ''10.0.0.5'' 480000)) ?w = Done w"
    and al: "map alert_type (raised_alerts w) = [brute_force]"
            "map alert_severity (raised_alerts w) = [High]"
    and lg: "action_log w ! 0 = ''[ACTION] Blocking IP: 10.0.0.5''"
    and ev: "map event_type (db_events w) ! 4 = ''ip_blocked''"
    unfolding two
    by (simp add: generateAlert_def patterns_def row_json_def loginRow_def js_field_def
        get_prop_def nullable_def or_undefined_def alertAction_def SecurityLogger_blockIP_def
        notifyAdmins_def logEvent_stores_only api_post_event_def SecurityEventModel_create_def
        print_action_def template_def mapPatternToAlertType_def fourLogins_def
        json_stringify_def Let_def
        del: logEvent.simps)
  from w have g: "gate w = gate ?w"
    using generateAlert_gate [OF logEvent_keeps_gate] by blast
  then have g': "gate w = initial_middleware_state" by (simp add: fourLogins_def)
  have "fst (securityMiddleware defaultConfig ''10.0.0.5'' 480000 480000 480000
          initial_middleware_state) = Admitted"
    by (simp add: securityMiddleware_def defaultConfig_def initial_middleware_state_def
        windowMs_def Let_def)
  with w al lg ev g' show "\<exists>w. generateAlert (logEvent 2 (eightMinutes parse)) (eightMinutes parse) (patterns ! 0)
              (row_json (loginRow ''failed_login'' ''10.0.0.5'' 480000))
              (fourLogins ''failed_login'') = Done w
          \<and> map alert_type (raised_alerts w) = [brute_force]
          \<and> map alert_severity (raised_alerts w) = [High]
          \<and> action_log w ! 0 = ''[ACTION] Blocking IP: 10.0.0.5''
          \<and> map event_type (db_events w) ! 4 = ''ip_blocked''
          \<and> gate w = initial_middleware_state
          \<and> fst (securityMiddleware defaultConfig ''10.0.0.5'' 480000 480000 480000 (gate w))
              = Admitted"
    by auto
qed

subsection \<open>One-time passwords: general facts\<close>

lemma generateTOTP_cong_step:
  "timeStep c1 ts1 = timeStep c2 ts2 \<Longrightarrow> generateTOTP c1 secret ts1 = generateTOTP c2 secret ts2"
  by (simp add: generateTOTP_def)

text \<open>For timestamps other than 0 the code depends on the secret and the step only.\<close>

lemma generateTOTP_same_step:
  "t1 \<noteq> 0 \<Longrightarrow> t2 \<noteq> 0 \<Longrightarrow> t1 div 30000 = t2 div 30000 \<Longrightarrow>
   generateTOTP c1 secret (Some t1) = generateTOTP c2 secret (Some t2)"
  by (rule generateTOTP_cong_step) (simp add: timeStep_def)









subsection \<open>SHA-1 and HMAC on short messages\<close>

lemma length_digest_bytes: "length (digest_bytes s) = 20"
  by (cases s) (simp add: digest_bytes_def bytes_of_u32_def)

lemma length_length_bytes: "length (length_bytes n) = 8"
  by (simp add: length_bytes_def Let_def)

lemma sha1_blocks_two:
  assumes "length A = 64" and "length B = 64"
  shows "sha1_blocks (Suc (Suc 0)) h (A @ B) = sha1_block (sha1_block h A) B"
  by (simp add: assms)

text \<open>A message of 64 to 119 bytes is hashed in two blocks.\<close>

lemma sha1_two_blocks:
  assumes "length msg = 64 + n" and "n < 56"
  shows "sha1 msg =
           digest_bytes
             (sha1_block (sha1_block sha1_init (take 64 msg))
                (drop 64 msg @ [0x80] @ replicate (55 - n) 0 @ length_bytes (64 + n)))"
proof -
  let ?tail = "drop 64 msg @ [0x80] @ replicate (55 - n) 0 @ length_bytes (64 + n)"
  have m: "n mod 64 = n" using assms(2) by simp
  have "119 - n = 64 + (55 - n)" using assms(2) by simp
  then have "(119 - n) mod 64 = (55 - n) mod 64" by (simp only: mod_add_self1)
  then have k: "(119 - n) mod 64 = 55 - n" by simp
  have p: "sha1_pad msg = msg @ [0x80] @ replicate (55 - n) 0 @ length_bytes (64 + n)"
    by (simp add: sha1_pad_def assms(1) m k)
  have lt: "length (take 64 msg) = 64" using assms(1) by simp
  have "length (drop 64 msg) = n" using assms(1) by simp
  then have "length ?tail = n + (1 + ((55 - n) + 8))"
    by (simp only: length_append length_replicate length_length_bytes list.size One_nat_def)
  then have ltail: "length ?tail = 64" using assms(2) by simp
  have "take 64 msg @ ?tail = (take 64 msg @ drop 64 msg) @ [0x80] @ replicate (55 - n) 0
      @ length_bytes (64 + n)"
    by (simp only: append_assoc)
  then have p': "sha1_pad msg = take 64 msg @ ?tail"
    by (simp only: p append_take_drop_id)
  have "length (take 64 msg @ ?tail) = length (take 64 msg) + length ?tail"
    by (rule length_append)
  then have "length (take 64 msg @ ?tail) = 64 + 64"
    by (simp only: lt ltail)
  then have l: "length (sha1_pad msg) div 64 = Suc (Suc 0)"
    by (simp only: p')
  show ?thesis
    unfolding sha1_def Let_def l
    by (simp only: p' sha1_blocks_two [OF lt ltail])
qed

lemma hmac_sha1_short:
  assumes "length key \<le> 64" and "length data < 56"
    and "sha1_block sha1_init (map (\<lambda>b. b XOR 0x36) (key @ replicate (64 - length key) 0)) = hi"
    and "sha1_block sha1_init (map (\<lambda>b. b XOR 0x5c) (key @ replicate (64 - length key) 0)) = ho"
    and "sha1_block hi (data @ [0x80] @ replicate (55 - length data) 0
            @ length_bytes (64 + length data)) = hin"
    and "sha1_block ho (digest_bytes hin @ [0x80] @ replicate 35 0 @ length_bytes 84) = hout"
  shows "hmac_sha1 key data = digest_bytes hout"
proof -
  let ?kb = "key @ replicate (64 - length key) 0"
  have kb: "hmac_key_block key = ?kb"
    using assms(1) by (simp add: hmac_key_block_def)
  have lk: "length ?kb = 64" using assms(1) by simp
  have inner: "sha1 (map (\<lambda>b. b XOR 0x36) ?kb @ data) = digest_bytes hin"
    using sha1_two_blocks [of "map (\<lambda>b. b XOR 0x36) ?kb @ data" "length data"] assms(2,3,5) lk
    by simp
  have "sha1 (map (\<lambda>b. b XOR 0x5c) ?kb @ digest_bytes hin) = digest_bytes hout"
    using sha1_two_blocks [of "map (\<lambda>b. b XOR 0x5c) ?kb @ digest_bytes hin" 20] assms(4,6) lk
    by (simp add: length_digest_bytes)
  with inner kb show ?thesis by (simp add: hmac_sha1_def)
qed

subsection \<open>The codes of the RFC test secret\<close>

text \<open>
  The lemmas of this part compute HMAC-SHA-1 for the test secret of RFC 4226 and RFC
  6238 at a handful of time steps, one compression at a time: each states the message
  schedule and the state after every twenty rounds, and the simplifier checks them.
\<close>

lemma intToBytes_loop_numeral:
  "intToBytes_loop (numeral k) num bytes =
     intToBytes_loop (pred_numeral k) (drop_bit 8 num) (ucast (num AND 0xff) # bytes)"
  by (simp add: numeral_eq_Suc)

lemma replicate_numeral: "replicate (numeral k) x = x # replicate (pred_numeral k) x"
  by (simp add: numeral_eq_Suc)

lemma rfc_key:
  "decodeBase32 rfcSecret =
     [0x31, 0x32, 0x33, 0x34, 0x35, 0x36, 0x37, 0x38, 0x39, 0x30, 0x31, 0x32, 0x33, 0x34, 0x35,
      0x36, 0x37, 0x38, 0x39, 0x30]"
  by (simp add: decodeBase32_def rfcSecret_def toUpperCase_def BASE32_CHARS_def Let_def)

lemma rfc_key_ipad:
  "map (\<lambda>b. b XOR 0x36)
     (([0x31, 0x32, 0x33, 0x34, 0x35, 0x36, 0x37, 0x38, 0x39, 0x30, 0x31, 0x32, 0x33, 0x34,
        0x35, 0x36, 0x37, 0x38, 0x39, 0x30] :: byte list)
      @ replicate (64 - length
     ([0x31, 0x32, 0x33, 0x34, 0x35, 0x36, 0x37, 0x38, 0x39, 0x30, 0x31, 0x32, 0x33, 0x34, 0x35,
       0x36, 0x37, 0x38, 0x39, 0x30] :: byte list)) 0) =
     [0x07, 0x04, 0x05, 0x02, 0x03, 0x00, 0x01, 0x0E, 0x0F, 0x06, 0x07, 0x04, 0x05, 0x02, 0x03,
      0x00, 0x01, 0x0E, 0x0F, 0x06, 0x36, 0x36, 0x36, 0x36, 0x36, 0x36, 0x36, 0x36, 0x36, 0x36,
      0x36, 0x36, 0x36, 0x36, 0x36, 0x36, 0x36, 0x36, 0x36, 0x36, 0x36, 0x36, 0x36, 0x36, 0x36,
      0x36, 0x36, 0x36, 0x36, 0x36, 0x36, 0x36, 0x36, 0x36, 0x36, 0x36, 0x36, 0x36, 0x36, 0x36,
      0x36, 0x36, 0x36, 0x36]"
  by (simp add: replicate_numeral)

lemma rfc_key_opad:
  "map (\<lambda>b. b XOR 0x5c)
     (([0x31, 0x32, 0x33, 0x34, 0x35, 0x36, 0x37, 0x38, 0x39, 0x30, 0x31, 0x32, 0x33, 0x34,
        0x35, 0x36, 0x37, 0x38, 0x39, 0x30] :: byte list)
      @ replicate (64 - length
     ([0x31, 0x32, 0x33, 0x34, 0x35, 0x36, 0x37, 0x38, 0x39, 0x30, 0x31, 0x32, 0x33, 0x34, 0x35,
       0x36, 0x37, 0x38, 0x39, 0x30] :: byte list)) 0) =
     [0x6D, 0x6E, 0x6F, 0x68, 0x69, 0x6A, 0x6B, 0x64, 0x65, 0x6C, 0x6D, 0x6E, 0x6F, 0x68, 0x69,
      0x6A, 0x6B, 0x64, 0x65, 0x6C, 0x5C, 0x5C, 0x5C, 0x5C, 0x5C, 0x5C, 0x5C, 0x5C, 0x5C, 0x5C,
      0x5C, 0x5C, 0x5C, 0x5C, 0x5C, 0x5C, 0x5C, 0x5C, 0x5C, 0x5C, 0x5C, 0x5C, 0x5C, 0x5C, 0x5C,
      0x5C, 0x5C, 0x5C, 0x5C, 0x5C, 0x5C, 0x5C, 0x5C, 0x5C, 0x5C, 0x5C, 0x5C, 0x5C, 0x5C, 0x5C,
      0x5C, 0x5C, 0x5C, 0x5C]"
  by (simp add: replicate_numeral)

lemma rfc_inner_key_block:
  "sha1_block sha1_init
     [0x07, 0x04, 0x05, 0x02, 0x03, 0x00, 0x01, 0x0E, 0x0F, 0x06, 0x07, 0x04, 0x05, 0x02, 0x03,
      0x00, 0x01, 0x0E, 0x0F, 0x06, 0x36, 0x36, 0x36, 0x36, 0x36, 0x36, 0x36, 0x36, 0x36, 0x36,
      0x36, 0x36, 0x36, 0x36, 0x36, 0x36, 0x36, 0x36, 0x36, 0x36, 0x36, 0x36, 0x36, 0x36, 0x36,
      0x36, 0x36, 0x36, 0x36, 0x36, 0x36, 0x36, 0x36, 0x36, 0x36, 0x36, 0x36, 0x36, 0x36, 0x36,
      0x36, 0x36, 0x36, 0x36]
   = (0xCBC80C8C, 0xF599E2AC, 0xBDB8C832, 0xDA95C1C3, 0xF8683025)"
proof -
  let ?w =
    "[0x07040502, 0x0300010E, 0x0F060704, 0x05020300, 0x010E0F06, 0x36363636, 0x36363636,
      0x36363636, 0x36363636, 0x36363636, 0x36363636, 0x36363636, 0x36363636, 0x36363636,
      0x36363636, 0x36363636, 0x1004040C, 0x0C04041C, 0x1C101004, 0x2A0C0E18, 0x1A141634,
      0x544C4C64, 0x3874705C, 0x58444004, 0x889090D0, 0x68E0E880, 0x88A8A000, 0x45393D91,
      0xE5E9FD68, 0xB9C9D8C9, 0xB6FEFFEE, 0x0F3F1E8D, 0x7A9AB822, 0xF02C3AD5, 0x0327717B,
      0x83C78F9E, 0x6F4B43AA, 0x6DCD4BA5, 0x0BBB21F9, 0xA1A1EB46, 0x2EDF86AE, 0xAC9D9C7B,
      0x9F8F8EAB, 0xA3D1D8D0, 0x2183BAAF, 0x89680694, 0xC81D7DCA, 0xFE62EB62, 0xBC1492C7,
      0x2ED6A9F4, 0x1B02AE30, 0xE39F1C59, 0xD74AE210, 0xBC0C108E, 0x1DCD8D88, 0x4828FC9E,
      0x62911499, 0x78AEC1AE, 0xDA4CCD55, 0x576FAD09, 0x8CF5C9B6, 0x2294605A, 0x7D579F18,
      0x28D2EF7C, 0xCE269069, 0x9161D637, 0x7DACDC12, 0x8DB4636F, 0xAE26E033, 0x5638A0B1,
      0x1F7ECACD, 0x6CE464FF, 0x4187D228, 0x43BCE0BB, 0x8FE3781C, 0x7390F829, 0x3870AC4C,
      0xA73AAF17, 0xBF3E7B2B, 0xDA4FE3F1]"
  let ?h = "(0x67452301, 0xEFCDAB89, 0x98BADCFE, 0x10325476, 0xC3D2E1F0)"
  have w: "schedule (words_of
     [0x07, 0x04, 0x05, 0x02, 0x03, 0x00, 0x01, 0x0E, 0x0F, 0x06, 0x07, 0x04, 0x05, 0x02, 0x03,
      0x00, 0x01, 0x0E, 0x0F, 0x06, 0x36, 0x36, 0x36, 0x36, 0x36, 0x36, 0x36, 0x36, 0x36, 0x36,
      0x36, 0x36, 0x36, 0x36, 0x36, 0x36, 0x36, 0x36, 0x36, 0x36, 0x36, 0x36, 0x36, 0x36, 0x36,
      0x36, 0x36, 0x36, 0x36, 0x36, 0x36, 0x36, 0x36, 0x36, 0x36, 0x36, 0x36, 0x36, 0x36, 0x36,
      0x36, 0x36, 0x36, 0x36]) = ?w"
    by (simp add: be32_def schedule_def schedule_step_def rotl_def)
  have r1: "sha1_rounds f_ch 0x5A827999 (take 20 ?w) ?h
      = (0xF85A57FC, 0xAC591E50, 0xEFBFCF47, 0x64CCAF35, 0x3694E1FA)"
    by (simp add: f_ch_def rotl_def)
  have r2: "sha1_rounds f_parity 0x6ED9EBA1 (take 20 (drop 20 ?w))
      (0xF85A57FC, 0xAC591E50, 0xEFBFCF47, 0x64CCAF35, 0x3694E1FA)
      = (0x0EC3EEBD, 0x519EDDBB, 0xFACDC1A7, 0xD89B4586, 0x71D10BCB)"
    by (simp add: f_parity_def rotl_def)
  have r3: "sha1_rounds f_maj 0x8F1BBCDC (take 20 (drop 40 ?w))
      (0x0EC3EEBD, 0x519EDDBB, 0xFACDC1A7, 0xD89B4586, 0x71D10BCB)
      = (0x2E104B6C, 0xB30FA3F7, 0xEDADAA36, 0xDB5E5B1E, 0x9B648C86)"
    by (simp add: f_maj_def rotl_def)
  have r4: "sha1_rounds f_parity 0xCA62C1D6 (drop 60 ?w)
      (0x2E104B6C, 0xB30FA3F7, 0xEDADAA36, 0xDB5E5B1E, 0x9B648C86)
      = (0x6482E98B, 0x05CC3723, 0x24FDEB34, 0xCA636D4D, 0x34954E35)"
    by (simp add: f_parity_def rotl_def)
  show ?thesis
    unfolding sha1_block_def Let_def w sha1_init_def r1 r2 r3 r4 by (simp add: add_state_def)
qed

lemma rfc_outer_key_block:
  "sha1_block sha1_init
     [0x6D, 0x6E, 0x6F, 0x68, 0x69, 0x6A, 0x6B, 0x64, 0x65, 0x6C, 0x6D, 0x6E, 0x6F, 0x68, 0x69,
      0x6A, 0x6B, 0x64, 0x65, 0x6C, 0x5C, 0x5C, 0x5C, 0x5C, 0x5C, 0x5C, 0x5C, 0x5C, 0x5C, 0x5C,
      0x5C, 0x5C, 0x5C, 0x5C, 0x5C, 0x5C, 0x5C, 0x5C, 0x5C, 0x5C, 0x5C, 0x5C, 0x5C, 0x5C, 0x5C,
      0x5C, 0x5C, 0x5C, 0x5C, 0x5C, 0x5C, 0x5C, 0x5C, 0x5C, 0x5C, 0x5C, 0x5C, 0x5C, 0x5C, 0x5C,
      0x5C, 0x5C, 0x5C, 0x5C]
   = (0x98BDBDCD, 0x58E07BFE, 0xAD5CDDEA, 0x3AC0430B, 0xFE106825)"
proof -
  let ?w =
    "[0x6D6E6F68, 0x696A6B64, 0x656C6D6E, 0x6F68696A, 0x6B64656C, 0x5C5C5C5C, 0x5C5C5C5C,
      0x5C5C5C5C, 0x5C5C5C5C, 0x5C5C5C5C, 0x5C5C5C5C, 0x5C5C5C5C, 0x5C5C5C5C, 0x5C5C5C5C,
      0x5C5C5C5C, 0x5C5C5C5C, 0x1004040C, 0x0C04041C, 0x1C101004, 0xFED8DACC, 0xCEC0C2E0,
      0x809898B0, 0x45090D21, 0x25393D79, 0x21393979, 0x921A127A, 0x72525AFA, 0xBFC3C76B,
      0xB9B5A134, 0xE5958495, 0x6D252435, 0x99A9881B, 0x917153C9, 0x1BC7D13E, 0x7256000A,
      0xA1E5ADBC, 0x53777F96, 0x64C442AC, 0x51E17BA3, 0xFBFBB11C, 0x4DBCE5CD, 0xCFFEFF18,
      0x849495B0, 0x6C1E171F, 0x90320B1E, 0x38D9B725, 0x83563681, 0xD34FC64F, 0x2C840257,
      0xED156A37, 0xEDF458C6, 0x0B77F4B1, 0xFF62CA38, 0x942438A6, 0x28F8B8BD, 0x305084E6,
      0xE3109518, 0xCC1A751A, 0x9204851D, 0x79418327, 0x4039057A, 0xDB6D99A3, 0xFCD61E99,
      0x9C665BC8, 0xF21AAC55, 0xAD5DEA0B, 0x39E89856, 0x2811C6CA, 0x75FD3BE8, 0x8DE37B6A,
      0x3E5FEBEC, 0x2BA323B8, 0x1DDB8E74, 0x4CB3EFB4, 0x80EC7713, 0x2FCCA475, 0x0B439F7F,
      0x94099C24, 0x3EBFFAAA, 0x23B61A08]"
  let ?h = "(0x67452301, 0xEFCDAB89, 0x98BADCFE, 0x10325476, 0xC3D2E1F0)"
  have w: "schedule (words_of
     [0x6D, 0x6E, 0x6F, 0x68, 0x69, 0x6A, 0x6B, 0x64, 0x65, 0x6C, 0x6D, 0x6E, 0x6F, 0x68, 0x69,
      0x6A, 0x6B, 0x64, 0x65, 0x6C, 0x5C, 0x5C, 0x5C, 0x5C, 0x5C, 0x5C, 0x5C, 0x5C, 0x5C, 0x5C,
      0x5C, 0x5C, 0x5C, 0x5C, 0x5C, 0x5C, 0x5C, 0x5C, 0x5C, 0x5C, 0x5C, 0x5C, 0x5C, 0x5C, 0x5C,
      0x5C, 0x5C, 0x5C, 0x5C, 0x5C, 0x5C, 0x5C, 0x5C, 0x5C, 0x5C, 0x5C, 0x5C, 0x5C, 0x5C, 0x5C,
      0x5C, 0x5C, 0x5C, 0x5C]) = ?w"
    by (simp add: be32_def schedule_def schedule_step_def rotl_def)
  have r1: "sha1_rounds f_ch 0x5A827999 (take 20 ?w) ?h
      = (0xE391130D, 0xBF92A45C, 0xD985BBBC, 0x440CF792, 0x58046195)"
    by (simp add: f_ch_def rotl_def)
  have r2: "sha1_rounds f_parity 0x6ED9EBA1 (take 20 (drop 20 ?w))
      (0xE391130D, 0xBF92A45C, 0xD985BBBC, 0x440CF792, 0x58046195)
      = (0x1100B3EC, 0xFD16397C, 0xBE236441, 0x71D3058E, 0xF18D8687)"
    by (simp add: f_parity_def rotl_def)
  have r3: "sha1_rounds f_maj 0x8F1BBCDC (take 20 (drop 40 ?w))
      (0x1100B3EC, 0xFD16397C, 0xBE236441, 0x71D3058E, 0xF18D8687)
      = (0x181F6F18, 0x77F8D026, 0x8EFE08BB, 0xF180D7DA, 0x5578CCEF)"
    by (simp add: f_maj_def rotl_def)
  have r4: "sha1_rounds f_parity 0xCA62C1D6 (drop 60 ?w)
      (0x181F6F18, 0x77F8D026, 0x8EFE08BB, 0xF180D7DA, 0x5578CCEF)
      = (0x31789ACC, 0x6912D075, 0x14A200EC, 0x2A8DEE95, 0x3A3D8635)"
    by (simp add: f_parity_def rotl_def)
  show ?thesis
    unfolding sha1_block_def Let_def w sha1_init_def r1 r2 r3 r4 by (simp add: add_state_def)
qed

text \<open>Time step 0.\<close>

lemma step_0_bytes: "intToBytes 0 = [0x00, 0x00, 0x00, 0x00, 0x00, 0x00, 0x00, 0x00]"
  by (simp add: intToBytes_def intToBytes_loop_numeral)

lemma step_0_inner_tail:
  "([0x00, 0x00, 0x00, 0x00, 0x00, 0x00, 0x00, 0x00] :: byte list) @ [0x80]
     @ replicate (55 - length ([0x00, 0x00, 0x00, 0x00, 0x00, 0x00, 0x00, 0x00] :: byte list)) 0
     @ length_bytes (64 + length ([0x00, 0x00, 0x00, 0x00, 0x00, 0x00, 0x00, 0x00] :: byte list)) =
     [0x00, 0x00, 0x00, 0x00, 0x00, 0x00, 0x00, 0x00, 0x80, 0x00, 0x00, 0x00, 0x00, 0x00, 0x00,
      0x00, 0x00, 0x00, 0x00, 0x00, 0x00, 0x00, 0x00, 0x00, 0x00, 0x00, 0x00, 0x00, 0x00, 0x00,
      0x00, 0x00, 0x00, 0x00, 0x00, 0x00, 0x00, 0x00, 0x00, 0x00, 0x00, 0x00, 0x00, 0x00, 0x00,
      0x00, 0x00, 0x00, 0x00, 0x00, 0x00, 0x00, 0x00, 0x00, 0x00, 0x00, 0x00, 0x00, 0x00, 0x00,
      0x00, 0x00, 0x02, 0x40]"
  by (simp add: replicate_numeral length_bytes_def)

lemma step_0_inner_block:
  "sha1_block (0xCBC80C8C, 0xF599E2AC, 0xBDB8C832, 0xDA95C1C3, 0xF8683025)
     [0x00, 0x00, 0x00, 0x00, 0x00, 0x00, 0x00, 0x00, 0x80, 0x00, 0x00, 0x00, 0x00, 0x00, 0x00,
      0x00, 0x00, 0x00, 0x00, 0x00, 0x00, 0x00, 0x00, 0x00, 0x00, 0x00, 0x00, 0x00, 0x00, 0x00,
      0x00, 0x00, 0x00, 0x00, 0x00, 0x00, 0x00, 0x00, 0x00, 0x00, 0x00, 0x00, 0x00, 0x00, 0x00,
      0x00, 0x00, 0x00, 0x00, 0x00, 0x00, 0x00, 0x00, 0x00, 0x00, 0x00, 0x00, 0x00, 0x00, 0x00,
      0x00, 0x00, 0x02, 0x40]
   = (0x0891D9BE, 0x09BB16C7, 0xC8722DF3, 0x68D86350, 0x667E499E)"
proof -
  let ?w =
    "[0x00000000, 0x00000000, 0x80000000, 0x00000000, 0x00000000, 0x00000000, 0x00000000,
      0x00000000, 0x00000000, 0x00000000, 0x00000000, 0x00000000, 0x00000000, 0x00000000,
      0x00000000, 0x00000240, 0x00000001, 0x00000000, 0x00000481, 0x00000002, 0x00000000,
      0x00000902, 0x00000004, 0x00000480, 0x00001206, 0x00000008, 0x00000002, 0x00002408,
      0x00000010, 0x00001680, 0x0000481A, 0x00000DA0, 0x0000000C, 0x00009020, 0x00001246,
      0x00005A08, 0x00012068, 0x00001288, 0x00000020, 0x00025280, 0x00000100, 0x00016800,
      0x000481A8, 0x0000D300, 0x000000C4, 0x00091000, 0x0001366C, 0x00059F88, 0x00120694,
      0x00012888, 0x0000581C, 0x00253A28, 0x00001008, 0x00161028, 0x00481AC8, 0x000D6A00,
      0x00012C28, 0x00911280, 0x001366E0, 0x005BAA00, 0x01206840, 0x0013F280, 0x00010060,
      0x02536A80, 0x00010040, 0x01680080, 0x048088E8, 0x00D30080, 0x0000C400, 0x09100080,
      0x01366C00, 0x059FAC00, 0x12069410, 0x0129A800, 0x00585490, 0x253B9820, 0x00100840,
      0x16119820, 0x481BE800, 0x0D699C80]"
  let ?h = "(0xCBC80C8C, 0xF599E2AC, 0xBDB8C832, 0xDA95C1C3, 0xF8683025)"
  have w: "schedule (words_of
     [0x00, 0x00, 0x00, 0x00, 0x00, 0x00, 0x00, 0x00, 0x80, 0x00, 0x00, 0x00, 0x00, 0x00, 0x00,
      0x00, 0x00, 0x00, 0x00, 0x00, 0x00, 0x00, 0x00, 0x00, 0x00, 0x00, 0x00, 0x00, 0x00, 0x00,
      0x00, 0x00, 0x00, 0x00, 0x00, 0x00, 0x00, 0x00, 0x00, 0x00, 0x00, 0x00, 0x00, 0x00, 0x00,
      0x00, 0x00, 0x00, 0x00, 0x00, 0x00, 0x00, 0x00, 0x00, 0x00, 0x00, 0x00, 0x00, 0x00, 0x00,
      0x00, 0x00, 0x02, 0x40]) = ?w"
    by (simp add: be32_def schedule_def schedule_step_def rotl_def)
  have r1: "sha1_rounds f_ch 0x5A827999 (take 20 ?w) ?h
      = (0x4806A9A9, 0x5EF4E186, 0xB7EC0AAA, 0xB4294F8E, 0xB1943750)"
    by (simp add: f_ch_def rotl_def)
  have r2: "sha1_rounds f_parity 0x6ED9EBA1 (take 20 (drop 20 ?w))
      (0x4806A9A9, 0x5EF4E186, 0xB7EC0AAA, 0xB4294F8E, 0xB1943750)
      = (0x0E830DDD, 0xEDF49A31, 0x95592F83, 0xC92985BF, 0x1142779A)"
    by (simp add: f_parity_def rotl_def)
  have r3: "sha1_rounds f_maj 0x8F1BBCDC (take 20 (drop 40 ?w))
      (0x0E830DDD, 0xEDF49A31, 0x95592F83, 0xC92985BF, 0x1142779A)
      = (0x93671EBB, 0x2CF06EC6, 0x80C94671, 0x82FF4686, 0xEBAFD5EF)"
    by (simp add: f_maj_def rotl_def)
  have r4: "sha1_rounds f_parity 0xCA62C1D6 (drop 60 ?w)
      (0x93671EBB, 0x2CF06EC6, 0x80C94671, 0x82FF4686, 0xEBAFD5EF)
      = (0x3CC9CD32, 0x1421341B, 0x0AB965C1, 0x8E42A18D, 0x6E161979)"
    by (simp add: f_parity_def rotl_def)
  show ?thesis
    unfolding sha1_block_def Let_def w r1 r2 r3 r4 by (simp add: add_state_def)
qed

lemma step_0_outer_tail:
  "digest_bytes (0x0891D9BE, 0x09BB16C7, 0xC8722DF3, 0x68D86350, 0x667E499E)
     @ [0x80] @ replicate 35 0 @ length_bytes 84 =
     [0x08, 0x91, 0xD9, 0xBE, 0x09, 0xBB, 0x16, 0xC7, 0xC8, 0x72, 0x2D, 0xF3, 0x68, 0xD8, 0x63,
      0x50, 0x66, 0x7E, 0x49, 0x9E, 0x80, 0x00, 0x00, 0x00, 0x00, 0x00, 0x00, 0x00, 0x00, 0x00,
      0x00, 0x00, 0x00, 0x00, 0x00, 0x00, 0x00, 0x00, 0x00, 0x00, 0x00, 0x00, 0x00, 0x00, 0x00,
      0x00, 0x00, 0x00, 0x00, 0x00, 0x00, 0x00, 0x00, 0x00, 0x00, 0x00, 0x00, 0x00, 0x00, 0x00,
      0x00, 0x00, 0x02, 0xA0]"
  by (simp add: replicate_numeral length_bytes_def digest_bytes_def bytes_of_u32_def)

lemma step_0_outer_block:
  "sha1_block (0x98BDBDCD, 0x58E07BFE, 0xAD5CDDEA, 0x3AC0430B, 0xFE106825)
     [0x08, 0x91, 0xD9, 0xBE, 0x09, 0xBB, 0x16, 0xC7, 0xC8, 0x72, 0x2D, 0xF3, 0x68, 0xD8, 0x63,
      0x50, 0x66, 0x7E, 0x49, 0x9E, 0x80, 0x00, 0x00, 0x00, 0x00, 0x00, 0x00, 0x00, 0x00, 0x00,
      0x00, 0x00, 0x00, 0x00, 0x00, 0x00, 0x00, 0x00, 0x00, 0x00, 0x00, 0x00, 0x00, 0x00, 0x00,
      0x00, 0x00, 0x00, 0x00, 0x00, 0x00, 0x00, 0x00, 0x00, 0x00, 0x00, 0x00, 0x00, 0x00, 0x00,
      0x00, 0x00, 0x02, 0xA0]
   = (0xCC93CF18, 0x508D9493, 0x4C64B65D, 0x8BA7667F, 0xB7CDE4B0)"
proof -
  let ?w =
    "[0x0891D9BE, 0x09BB16C7, 0xC8722DF3, 0x68D86350, 0x667E499E, 0x80000000, 0x00000000,
      0x00000000, 0x00000000, 0x00000000, 0x00000000, 0x00000000, 0x00000000, 0x00000000,
      0x00000000, 0x000002A0, 0x81C7E89B, 0xC2C6EB2E, 0x5C18CD9B, 0xD23F1796, 0x49714561,
      0xB8319B37, 0xA47E2F2D, 0x92E28F82, 0x73ECE758, 0xCD718806, 0x9DF48433, 0x43A7E19D,
      0x08019ACF, 0x4B8A3B48, 0xCC3C4C56, 0xB04BF986, 0xCB73F221, 0x236871D0, 0x71ADEA9E,
      0xC5B53E3B, 0x8CCD02A7, 0x21E98AC6, 0xBC377431, 0xC62BF94A, 0x09043718, 0x2312D8F4,
      0x44E61A50, 0x8939A7ED, 0xD7C41994, 0x3D9CA4B1, 0x6482DB56, 0x0598D111, 0x1C8D162D,
      0x429A9893, 0x783C46F1, 0xE3D00A7A, 0x4B49EF23, 0x44C52399, 0x64C3240A, 0x57D03F19,
      0x2B5431F8, 0x18E58701, 0x799CF459, 0xF84271BC, 0xC1D555C1, 0x0ABB44C0, 0xC91D319B,
      0xA20E46B5, 0x8ABC4BC8, 0xE16448E6, 0xD1CE367D, 0xABD6272F, 0x1E77AC1C, 0x90C0DC7B,
      0x5AB8068C, 0xE698A563, 0x9168A424, 0xB6F771AE, 0x1E3E650D, 0x908F6CEF, 0x409173D1,
      0x4C977606, 0x132C2061, 0xCAC7B1C3]"
  let ?h = "(0x98BDBDCD, 0x58E07BFE, 0xAD5CDDEA, 0x3AC0430B, 0xFE106825)"
  have w: "schedule (words_of
     [0x08, 0x91, 0xD9, 0xBE, 0x09, 0xBB, 0x16, 0xC7, 0xC8, 0x72, 0x2D, 0xF3, 0x68, 0xD8, 0x63,
      0x50, 0x66, 0x7E, 0x49, 0x9E, 0x80, 0x00, 0x00, 0x00, 0x00, 0x00, 0x00, 0x00, 0x00, 0x00,
      0x00, 0x00, 0x00, 0x00, 0x00, 0x00, 0x00, 0x00, 0x00, 0x00, 0x00, 0x00, 0x00, 0x00, 0x00,
      0x00, 0x00, 0x00, 0x00, 0x00, 0x00, 0x00, 0x00, 0x00, 0x00, 0x00, 0x00, 0x00, 0x00, 0x00,
      0x00, 0x00, 0x02, 0xA0]) = ?w"
    by (simp add: be32_def schedule_def schedule_step_def rotl_def)
  have r1: "sha1_rounds f_ch 0x5A827999 (take 20 ?w) ?h
      = (0xB9C05442, 0xD10CF874, 0x4BD014B6, 0xC6D7F459, 0x9F263CFA)"
    by (simp add: f_ch_def rotl_def)
  have r2: "sha1_rounds f_parity 0x6ED9EBA1 (take 20 (drop 20 ?w))
      (0xB9C05442, 0xD10CF874, 0x4BD014B6, 0xC6D7F459, 0x9F263CFA)
      = (0xC40278DC, 0x15C44406, 0x27B3A924, 0x306F134B, 0x9B10DEC2)"
    by (simp add: f_parity_def rotl_def)
  have r3: "sha1_rounds f_maj 0x8F1BBCDC (take 20 (drop 40 ?w))
      (0xC40278DC, 0x15C44406, 0x27B3A924, 0x306F134B, 0x9B10DEC2)
      = (0xFC07C792, 0x6B93AAFE, 0x7B8FA056, 0x6F0CB03C, 0x602C748D)"
    by (simp add: f_maj_def rotl_def)
  have r4: "sha1_rounds f_parity 0xCA62C1D6 (drop 60 ?w)
      (0xFC07C792, 0x6B93AAFE, 0x7B8FA056, 0x6F0CB03C, 0x602C748D)
      = (0x33D6114B, 0xF7AD1895, 0x9F07D873, 0x50E72374, 0xB9BD7C8B)"
    by (simp add: f_parity_def rotl_def)
  show ?thesis
    unfolding sha1_block_def Let_def w r1 r2 r3 r4 by (simp add: add_state_def)
qed

lemma step_0_hmac:
  "hmac_sha1
     [0x31, 0x32, 0x33, 0x34, 0x35, 0x36, 0x37, 0x38, 0x39, 0x30, 0x31, 0x32, 0x33, 0x34, 0x35,
      0x36, 0x37, 0x38, 0x39, 0x30]
     [0x00, 0x00, 0x00, 0x00, 0x00, 0x00, 0x00, 0x00] =
     [0xCC, 0x93, 0xCF, 0x18, 0x50, 0x8D, 0x94, 0x93, 0x4C, 0x64, 0xB6, 0x5D, 0x8B, 0xA7, 0x66,
      0x7F, 0xB7, 0xCD, 0xE4, 0xB0]"

proof -
  have "hmac_sha1
     [0x31, 0x32, 0x33, 0x34, 0x35, 0x36, 0x37, 0x38, 0x39, 0x30, 0x31, 0x32, 0x33, 0x34, 0x35,
      0x36, 0x37, 0x38, 0x39, 0x30]
     [0x00, 0x00, 0x00, 0x00, 0x00, 0x00, 0x00, 0x00] =
     digest_bytes (0xCC93CF18, 0x508D9493, 0x4C64B65D, 0x8BA7667F, 0xB7CDE4B0)"

  proof (rule hmac_sha1_short)
    show "sha1_block sha1_init (map (\<lambda>b. b XOR 0x36)
       (([0x31, 0x32, 0x33, 0x34, 0x35, 0x36, 0x37, 0x38, 0x39, 0x30, 0x31, 0x32, 0x33, 0x34,
          0x35, 0x36, 0x37, 0x38, 0x39, 0x30] :: byte list)
        @ replicate (64 - length
       ([0x31, 0x32, 0x33, 0x34, 0x35, 0x36, 0x37, 0x38, 0x39, 0x30, 0x31, 0x32, 0x33, 0x34,
         0x35, 0x36, 0x37, 0x38, 0x39, 0x30] :: byte list)) 0)) =
       (0xCBC80C8C, 0xF599E2AC, 0xBDB8C832, 0xDA95C1C3, 0xF8683025)"
      by (simp only: rfc_key_ipad rfc_inner_key_block)

    show "sha1_block sha1_init (map (\<lambda>b. b XOR 0x5c)
       (([0x31, 0x32, 0x33, 0x34, 0x35, 0x36, 0x37, 0x38, 0x39, 0x30, 0x31, 0x32, 0x33, 0x34,
          0x35, 0x36, 0x37, 0x38, 0x39, 0x30] :: byte list)
        @ replicate (64 - length
       ([0x31, 0x32, 0x33, 0x34, 0x35, 0x36, 0x37, 0x38, 0x39, 0x30, 0x31, 0x32, 0x33, 0x34,
         0x35, 0x36, 0x37, 0x38, 0x39, 0x30] :: byte list)) 0)) =
       (0x98BDBDCD, 0x58E07BFE, 0xAD5CDDEA, 0x3AC0430B, 0xFE106825)"
      by (simp only: rfc_key_opad rfc_outer_key_block)

    show "sha1_block (0xCBC80C8C, 0xF599E2AC, 0xBDB8C832, 0xDA95C1C3, 0xF8683025)
       (([0x00, 0x00, 0x00, 0x00, 0x00, 0x00, 0x00, 0x00] :: byte list) @ [0x80]
        @ replicate (55 - length ([0x00, 0x00, 0x00, 0x00, 0x00, 0x00, 0x00, 0x00] :: byte list)) 0
        @ length_bytes (64 + length ([0x00, 0x00, 0x00, 0x00, 0x00, 0x00, 0x00, 0x00] :: byte list))) =
       (0x0891D9BE, 0x09BB16C7, 0xC8722DF3, 0x68D86350, 0x667E499E)"
      by (simp only: step_0_inner_tail step_0_inner_block)

    show "sha1_block (0x98BDBDCD, 0x58E07BFE, 0xAD5CDDEA, 0x3AC0430B, 0xFE106825)
       (digest_bytes (0x0891D9BE, 0x09BB16C7, 0xC8722DF3, 0x68D86350, 0x667E499E)
        @ [0x80] @ replicate 35 0 @ length_bytes 84) =
       (0xCC93CF18, 0x508D9493, 0x4C64B65D, 0x8BA7667F, 0xB7CDE4B0)"
      by (simp only: step_0_outer_tail step_0_outer_block)

  qed simp_all
  then show ?thesis by (simp add: digest_bytes_def bytes_of_u32_def)
qed

lemma step_0_code:
  "padStart 6 CHR ''0'' (toString (truncate_code
     [0xCC, 0x93, 0xCF, 0x18, 0x50, 0x8D, 0x94, 0x93, 0x4C, 0x64, 0xB6, 0x5D, 0x8B, 0xA7, 0x66,
      0x7F, 0xB7, 0xCD, 0xE4, 0xB0])) = ''755224''"
  by (simp add: truncate_code_def byte_at_def padStart_def toString.simps digit_def Let_def)

lemma totp_step_0: "timeStep clock timestamp = 0 \<Longrightarrow> generateTOTP clock rfcSecret timestamp = Inr ''755224''"
  by (simp add: generateTOTP_def hmacSha1_def rfc_key step_0_bytes step_0_hmac step_0_code)









text \<open>Time step 37037036.\<close>

lemma step_37037036_bytes: "intToBytes 37037036 = [0x00, 0x00, 0x00, 0x00, 0x02, 0x35, 0x23, 0xEC]"
  by (simp add: intToBytes_def intToBytes_loop_numeral)

lemma step_37037036_inner_tail:
  "([0x00, 0x00, 0x00, 0x00, 0x02, 0x35, 0x23, 0xEC] :: byte list) @ [0x80]
     @ replicate (55 - length ([0x00, 0x00, 0x00, 0x00, 0x02, 0x35, 0x23, 0xEC] :: byte list)) 0
     @ length_bytes (64 + length ([0x00, 0x00, 0x00, 0x00, 0x02, 0x35, 0x23, 0xEC] :: byte list)) =
     [0x00, 0x00, 0x00, 0x00, 0x02, 0x35, 0x23, 0xEC, 0x80, 0x00, 0x00, 0x00, 0x00, 0x00, 0x00,
      0x00, 0x00, 0x00, 0x00, 0x00, 0x00, 0x00, 0x00, 0x00, 0x00, 0x00, 0x00, 0x00, 0x00, 0x00,
      0x00, 0x00, 0x00, 0x00, 0x00, 0x00, 0x00, 0x00, 0x00, 0x00, 0x00, 0x00, 0x00, 0x00, 0x00,
      0x00, 0x00, 0x00, 0x00, 0x00, 0x00, 0x00, 0x00, 0x00, 0x00, 0x00, 0x00, 0x00, 0x00, 0x00,
      0x00, 0x00, 0x02, 0x40]"
  by (simp add: replicate_numeral length_bytes_def)

lemma step_37037036_inner_block:
  "sha1_block (0xCBC80C8C, 0xF599E2AC, 0xBDB8C832, 0xDA95C1C3, 0xF8683025)
     [0x00, 0x00, 0x00, 0x00, 0x02, 0x35, 0x23, 0xEC, 0x80, 0x00, 0x00, 0x00, 0x00, 0x00, 0x00,
      0x00, 0x00, 0x00, 0x00, 0x00, 0x00, 0x00, 0x00, 0x00, 0x00, 0x00, 0x00, 0x00, 0x00, 0x00,
      0x00, 0x00, 0x00, 0x00, 0x00, 0x00, 0x00, 0x00, 0x00, 0x00, 0x00, 0x00, 0x00, 0x00, 0x00,
      0x00, 0x00, 0x00, 0x00, 0x00, 0x00, 0x00, 0x00, 0x00, 0x00, 0x00, 0x00, 0x00, 0x00, 0x00,
      0x00, 0x00, 0x02, 0x40]
   = (0xA6C6E82D, 0x15751DCA, 0xC1C6BA17, 0x1FC4B1F3, 0xD10BAF9A)"
proof -
  let ?w =
    "[0x00000000, 0x023523EC, 0x80000000, 0x00000000, 0x00000000, 0x00000000, 0x00000000,
      0x00000000, 0x00000000, 0x00000000, 0x00000000, 0x00000000, 0x00000000, 0x00000000,
      0x00000000, 0x00000240, 0x00000001, 0x046A47D8, 0x00000481, 0x00000002, 0x08D48FB0,
      0x00000902, 0x00000004, 0x11A91BE0, 0x00001206, 0x08D48FB8, 0x23523EC2, 0x00002408,
      0x00000010, 0x46A46B00, 0x0000481A, 0x2B86BCD0, 0x8D48FB0C, 0x197D00F0, 0x00001246,
      0x1A91AC09, 0x23531EA8, 0xAE1AD748, 0x3523EC22, 0x23506C40, 0x00000100, 0x49148EC4,
      0x000481A8, 0xB86BC402, 0xD48FB0CC, 0x86790261, 0x0001366C, 0x8A48C159, 0x1663D456,
      0x95F228A2, 0x523E983F, 0x3506D62A, 0xAE1AD5C8, 0xB21A42AC, 0x00481AC8, 0x9C2DEC2A,
      0x48FA2CA5, 0xC98AF158, 0x35308AE2, 0x87DC79D8, 0x663D4461, 0x163616ED, 0x23ED0255,
      0xCB548361, 0x3522EC42, 0x95261B0A, 0x048088E8, 0x6BC40238, 0xBA9320D6, 0x79026106,
      0x01366C00, 0x48C17D8A, 0x63D45606, 0xB48DFF15, 0x3E9877C2, 0x33F47617, 0x979D33EE,
      0x35F10691, 0x481BE800, 0x025DAC1F]"
  let ?h = "(0xCBC80C8C, 0xF599E2AC, 0xBDB8C832, 0xDA95C1C3, 0xF8683025)"
  have w: "schedule (words_of
     [0x00, 0x00, 0x00, 0x00, 0x02, 0x35, 0x23, 0xEC, 0x80, 0x00, 0x00, 0x00, 0x00, 0x00, 0x00,
      0x00, 0x00, 0x00, 0x00, 0x00, 0x00, 0x00, 0x00, 0x00, 0x00, 0x00, 0x00, 0x00, 0x00, 0x00,
      0x00, 0x00, 0x00, 0x00, 0x00, 0x00, 0x00, 0x00, 0x00, 0x00, 0x00, 0x00, 0x00, 0x00, 0x00,
      0x00, 0x00, 0x00, 0x00, 0x00, 0x00, 0x00, 0x00, 0x00, 0x00, 0x00, 0x00, 0x00, 0x00, 0x00,
      0x00, 0x00, 0x02, 0x40]) = ?w"
    by (simp add: be32_def schedule_def schedule_step_def rotl_def)
  have r1: "sha1_rounds f_ch 0x5A827999 (take 20 ?w) ?h
      = (0xC245BDC0, 0xAA1907F8, 0x288233A4, 0x861974B8, 0x99A8FED2)"
    by (simp add: f_ch_def rotl_def)
  have r2: "sha1_rounds f_parity 0x6ED9EBA1 (take 20 (drop 20 ?w))
      (0xC245BDC0, 0xAA1907F8, 0x288233A4, 0x861974B8, 0x99A8FED2)
      = (0x67D424E4, 0x2F7E6074, 0x4F0437D0, 0x432730FA, 0xB8B227DB)"
    by (simp add: f_parity_def rotl_def)
  have r3: "sha1_rounds f_maj 0x8F1BBCDC (take 20 (drop 40 ?w))
      (0x67D424E4, 0x2F7E6074, 0x4F0437D0, 0x432730FA, 0xB8B227DB)
      = (0x242407C8, 0xEC2CCD5E, 0x1F2231B7, 0xDC7BBD19, 0xDA3D14E7)"
    by (simp add: f_maj_def rotl_def)
  have r4: "sha1_rounds f_parity 0xCA62C1D6 (drop 60 ?w)
      (0x242407C8, 0xEC2CCD5E, 0x1F2231B7, 0xDC7BBD19, 0xDA3D14E7)
      = (0xDAFEDBA1, 0x1FDB3B1E, 0x040DF1E5, 0x452EF030, 0xD8A37F75)"
    by (simp add: f_parity_def rotl_def)
  show ?thesis
    unfolding sha1_block_def Let_def w r1 r2 r3 r4 by (simp add: add_state_def)
qed

lemma step_37037036_outer_tail:
  "digest_bytes (0xA6C6E82D, 0x15751DCA, 0xC1C6BA17, 0x1FC4B1F3, 0xD10BAF9A)
     @ [0x80] @ replicate 35 0 @ length_bytes 84 =
     [0xA6, 0xC6, 0xE8, 0x2D, 0x15, 0x75, 0x1D, 0xCA, 0xC1, 0xC6, 0xBA, 0x17, 0x1F, 0xC4, 0xB1,
      0xF3, 0xD1, 0x0B, 0xAF, 0x9A, 0x80, 0x00, 0x00, 0x00, 0x00, 0x00, 0x00, 0x00, 0x00, 0x00,
      0x00, 0x00, 0x00, 0x00, 0x00, 0x00, 0x00, 0x00, 0x00, 0x00, 0x00, 0x00, 0x00, 0x00, 0x00,
      0x00, 0x00, 0x00, 0x00, 0x00, 0x00, 0x00, 0x00, 0x00, 0x00, 0x00, 0x00, 0x00, 0x00, 0x00,
      0x00, 0x00, 0x02, 0xA0]"
  by (simp add: replicate_numeral length_bytes_def digest_bytes_def bytes_of_u32_def)

lemma step_37037036_outer_block:
  "sha1_block (0x98BDBDCD, 0x58E07BFE, 0xAD5CDDEA, 0x3AC0430B, 0xFE106825)
     [0xA6, 0xC6, 0xE8, 0x2D, 0x15, 0x75, 0x1D, 0xCA, 0xC1, 0xC6, 0xBA, 0x17, 0x1F, 0xC4, 0xB1,
      0xF3, 0xD1, 0x0B, 0xAF, 0x9A, 0x80, 0x00, 0x00, 0x00, 0x00, 0x00, 0x00, 0x00, 0x00, 0x00,
      0x00, 0x00, 0x00, 0x00, 0x00, 0x00, 0x00, 0x00, 0x00, 0x00, 0x00, 0x00, 0x00, 0x00, 0x00,
      0x00, 0x00, 0x00, 0x00, 0x00, 0x00, 0x00, 0x00, 0x00, 0x00, 0x00, 0x00, 0x00, 0x00, 0x00,
      0x00, 0x00, 0x02, 0xA0]
   = (0x278C02E5, 0x3610F84C, 0x40BD9135, 0xACD41010, 0x12410A14)"
proof -
  let ?w =
    "[0xA6C6E82D, 0x15751DCA, 0xC1C6BA17, 0x1FC4B1F3, 0xD10BAF9A, 0x80000000, 0x00000000,
      0x00000000, 0x00000000, 0x00000000, 0x00000000, 0x00000000, 0x00000000, 0x00000000,
      0x00000000, 0x000002A0, 0xCE00A474, 0x15635872, 0x219A2E5A, 0xA3882B0E, 0x88D1EFD1,
      0x43345CB5, 0x4710561D, 0x11A3DAE3, 0x1A69F183, 0xA4E61CDE, 0x6073E972, 0x73C3B51B,
      0x586FE61E, 0x468F6ECE, 0xF5A68EE5, 0xB95ECC5E, 0x66F82AC7, 0xCF57C28F, 0xE0CDC94E,
      0xEB0FD0CF, 0xB1F33ABA, 0xE9AA43AD, 0x87A1F368, 0x7BD061B3, 0xEA90E337, 0x3FA73045,
      0x46034F23, 0x69A7D05A, 0x473AC408, 0xA0F15C3C, 0xFAB10E20, 0x95C756D4, 0x98A8B905,
      0xC29C584B, 0x05F5D407, 0xE755F47B, 0x67E8AB23, 0x6EFD544A, 0xE1ABD408, 0x6CB15803,
      0xB58C82B6, 0xEA6ED8B8, 0xD0FA0E5E, 0x371FF557, 0x601B7366, 0x1662A1F9, 0x695B2CF5,
      0xB7E24BF4, 0x7D669C9A, 0x4DF8B0FB, 0x0A0A751C, 0x87A393F9, 0x5741796D, 0x3C49B158,
      0x75BFD365, 0xCCF96444, 0x48B34254, 0xCA6C9CE3, 0xEC24D8C0, 0xDCDB0A07, 0x28DB743B,
      0xE3DB072A, 0x7AB2D21B, 0x3C71D6E0]"
  let ?h = "(0x98BDBDCD, 0x58E07BFE, 0xAD5CDDEA, 0x3AC0430B, 0xFE106825)"
  have w: "schedule (words_of
     [0xA6, 0xC6, 0xE8, 0x2D, 0x15, 0x75, 0x1D, 0xCA, 0xC1, 0xC6, 0xBA, 0x17, 0x1F, 0xC4, 0xB1,
      0xF3, 0xD1, 0x0B, 0xAF, 0x9A, 0x80, 0x00, 0x00, 0x00, 0x00, 0x00, 0x00, 0x00, 0x00, 0x00,
      0x00, 0x00, 0x00, 0x00, 0x00, 0x00, 0x00, 0x00, 0x00, 0x00, 0x00, 0x00, 0x00, 0x00, 0x00,
      0x00, 0x00, 0x00, 0x00, 0x00, 0x00, 0x00, 0x00, 0x00, 0x00, 0x00, 0x00, 0x00, 0x00, 0x00,
      0x00, 0x00, 0x02, 0xA0]) = ?w"
    by (simp add: be32_def schedule_def schedule_step_def rotl_def)
  have r1: "sha1_rounds f_ch 0x5A827999 (take 20 ?w) ?h
      = (0x09865391, 0x491E6BF4, 0xAC31B843, 0xA57AA973, 0xDABDD95E)"
    by (simp add: f_ch_def rotl_def)
  have r2: "sha1_rounds f_parity 0x6ED9EBA1 (take 20 (drop 20 ?w))
      (0x09865391, 0x491E6BF4, 0xAC31B843, 0xA57AA973, 0xDABDD95E)
      = (0x10369F80, 0x97CED7B8, 0x1770E8BA, 0xAA560CD4, 0x4D836068)"
    by (simp add: f_parity_def rotl_def)
  have r3: "sha1_rounds f_maj 0x8F1BBCDC (take 20 (drop 40 ?w))
      (0x10369F80, 0x97CED7B8, 0x1770E8BA, 0xAA560CD4, 0x4D836068)
      = (0x2E8F68D1, 0xF426731B, 0x26FE03E8, 0x048ABD12, 0xDA9BF17D)"
    by (simp add: f_maj_def rotl_def)
  have r4: "sha1_rounds f_parity 0xCA62C1D6 (drop 60 ?w)
      (0x2E8F68D1, 0xF426731B, 0x26FE03E8, 0x048ABD12, 0xDA9BF17D)
      = (0x8ECE4518, 0xDD307C4E, 0x9360B34B, 0x7213CD05, 0x1430A1EF)"
    by (simp add: f_parity_def rotl_def)
  show ?thesis
    unfolding sha1_block_def Let_def w r1 r2 r3 r4 by (simp add: add_state_def)
qed

lemma step_37037036_hmac:
  "hmac_sha1
     [0x31, 0x32, 0x33, 0x34, 0x35, 0x36, 0x37, 0x38, 0x39, 0x30, 0x31, 0x32, 0x33, 0x34, 0x35,
      0x36, 0x37, 0x38, 0x39, 0x30]
     [0x00, 0x00, 0x00, 0x00, 0x02, 0x35, 0x23, 0xEC] =
     [0x27, 0x8C, 0x02, 0xE5, 0x36, 0x10, 0xF8, 0x4C, 0x40, 0xBD, 0x91, 0x35, 0xAC, 0xD4, 0x10,
      0x10, 0x12, 0x41, 0x0A, 0x14]"

proof -
  have "hmac_sha1
     [0x31, 0x32, 0x33, 0x34, 0x35, 0x36, 0x37, 0x38, 0x39, 0x30, 0x31, 0x32, 0x33, 0x34, 0x35,
      0x36, 0x37, 0x38, 0x39, 0x30]
     [0x00, 0x00, 0x00, 0x00, 0x02, 0x35, 0x23, 0xEC] =
     digest_bytes (0x278C02E5, 0x3610F84C, 0x40BD9135, 0xACD41010, 0x12410A14)"

  proof (rule hmac_sha1_short)
    show "sha1_block sha1_init (map (\<lambda>b. b XOR 0x36)
       (([0x31, 0x32, 0x33, 0x34, 0x35, 0x36, 0x37, 0x38, 0x39, 0x30, 0x31, 0x32, 0x33, 0x34,
          0x35, 0x36, 0x37, 0x38, 0x39, 0x30] :: byte list)
        @ replicate (64 - length
       ([0x31, 0x32, 0x33, 0x34, 0x35, 0x36, 0x37, 0x38, 0x39, 0x30, 0x31, 0x32, 0x33, 0x34,
         0x35, 0x36, 0x37, 0x38, 0x39, 0x30] :: byte list)) 0)) =
       (0xCBC80C8C, 0xF599E2AC, 0xBDB8C832, 0xDA95C1C3, 0xF8683025)"
      by (simp only: rfc_key_ipad rfc_inner_key_block)

    show "sha1_block sha1_init (map (\<lambda>b. b XOR 0x5c)
       (([0x31, 0x32, 0x33, 0x34, 0x35, 0x36, 0x37, 0x38, 0x39, 0x30, 0x31, 0x32, 0x33, 0x34,
          0x35, 0x36, 0x37, 0x38, 0x39, 0x30] :: byte list)
        @ replicate (64 - length
       ([0x31, 0x32, 0x33, 0x34, 0x35, 0x36, 0x37, 0x38, 0x39, 0x30, 0x31, 0x32, 0x33, 0x34,
         0x35, 0x36, 0x37, 0x38, 0x39, 0x30] :: byte list)) 0)) =
       (0x98BDBDCD, 0x58E07BFE, 0xAD5CDDEA, 0x3AC0430B, 0xFE106825)"
      by (simp only: rfc_key_opad rfc_outer_key_block)

    show "sha1_block (0xCBC80C8C, 0xF599E2AC, 0xBDB8C832, 0xDA95C1C3, 0xF8683025)
       (([0x00, 0x00, 0x00, 0x00, 0x02, 0x35, 0x23, 0xEC] :: byte list) @ [0x80]
        @ replicate (55 - length ([0x00, 0x00, 0x00, 0x00, 0x02, 0x35, 0x23, 0xEC] :: byte list)) 0
        @ length_bytes (64 + length ([0x00, 0x00, 0x00, 0x00, 0x02, 0x35, 0x23, 0xEC] :: byte list))) =
       (0xA6C6E82D, 0x15751DCA, 0xC1C6BA17, 0x1FC4B1F3, 0xD10BAF9A)"
      by (simp only: step_37037036_inner_tail step_37037036_inner_block)

    show "sha1_block (0x98BDBDCD, 0x58E07BFE, 0xAD5CDDEA, 0x3AC0430B, 0xFE106825)
       (digest_bytes (0xA6C6E82D, 0x15751DCA, 0xC1C6BA17, 0x1FC4B1F3, 0xD10BAF9A)
        @ [0x80] @ replicate 35 0 @ length_bytes 84) =
       (0x278C02E5, 0x3610F84C, 0x40BD9135, 0xACD41010, 0x12410A14)"
      by (simp only: step_37037036_outer_tail step_37037036_outer_block)

  qed simp_all
  then show ?thesis by (simp add: digest_bytes_def bytes_of_u32_def)
qed

lemma step_37037036_code:
  "padStart 6 CHR ''0'' (toString (truncate_code
     [0x27, 0x8C, 0x02, 0xE5, 0x36, 0x10, 0xF8, 0x4C, 0x40, 0xBD, 0x91, 0x35, 0xAC, 0xD4, 0x10,
      0x10, 0x12, 0x41, 0x0A, 0x14])) = ''081804''"
  by (simp add: truncate_code_def byte_at_def padStart_def toString.simps digit_def Let_def)

lemma totp_step_37037036: "timeStep clock timestamp = 37037036 \<Longrightarrow> generateTOTP clock rfcSecret timestamp = Inr ''081804''"
  by (simp add: generateTOTP_def hmacSha1_def rfc_key step_37037036_bytes step_37037036_hmac step_37037036_code)

































subsection \<open>One-time passwords: the round trip and the time steps\<close>









text \<open>
  Claim C9 says that two timestamps of the same 30-second step give the same code. The
  timestamps 0 and 1 (milliseconds) both lie in step 0, but \<open>generateTOTP\<close> reads its
  timestamp through \<open>timestamp || Date.now()\<close>, which replaces the timestamp 0 by the
  clock: at the clock of the RFC test time the code for timestamp 0 is the one of the
  current step, the code for timestamp 1 the one of step 0. For timestamps other than 0
  the claim holds (\<open>generateTOTP_same_step\<close>).
\<close>

theorem totp_timestamp_zero_uses_clock:
  "(0::int) div 30000 = 1 div 30000
   \<and> generateTOTP 1111111109000 rfcSecret (Some 0) = Inr ''081804''
   \<and> generateTOTP 1111111109000 rfcSecret (Some 1) = Inr ''755224''"
proof (intro conjI)
  show "(0::int) div 30000 = 1 div 30000" by simp
  show "generateTOTP 1111111109000 rfcSecret (Some 0) = Inr ''081804''"
    by (rule totp_step_37037036) (simp add: timeStep_def)
  show "generateTOTP 1111111109000 rfcSecret (Some 1) = Inr ''755224''"
    by (rule totp_step_0) (simp add: timeStep_def)
qed

end
